theory Spec2Isabelle
  imports Main
begin

section \<open>JSON values\<close>

text \<open>
  The tools of \<^verbatim>\<open>src/index.ts\<close> hand \<^verbatim>\<open>response.data\<close> to \<^verbatim>\<open>JSON.stringify\<close> and put the
  resulting string into a content block. \<^verbatim>\<open>response.data\<close> is what axios obtained from
  \<^verbatim>\<open>JSON.parse\<close> of the response body (or the body itself, a string, when it is not JSON),
  so it is a tree of null, booleans, numbers, strings, arrays and objects.

  A JavaScript number is \<open>NaN\<close>, an infinity, or a finite value. A finite value is kept
  as the triple that \<^verbatim>\<open>Number::toString\<close> of ECMA-262 works on: a sign, the significant
  decimal digits \<open>d\<^sub>1 \<dots> d\<^sub>k\<close> (no leading and no trailing zero) and the exponent \<open>n\<close>,
  standing for \<open>0.d\<^sub>1\<dots>d\<^sub>k \<times> 10\<^sup>n\<close>. Zero has no digits; its sign tells \<open>+0\<close> from \<open>-0\<close>.
  Rounding a decimal literal to the nearest binary double is not part of the model: a
  literal keeps its exact decimal value.

  A string is the list of the bytes of its UTF-8 encoding, so every string of Unicode
  characters is there; a JavaScript string with an unpaired surrogate has no such
  encoding and is outside the model. An object is the list of its properties in
  enumeration order.
\<close>

datatype jsnum = Finite bool "nat list" int | PosInf | NegInf | NaN

datatype json = JNull | JBool bool | JNum jsnum | JStr string
  | JArr "json list" | JObj "(string \<times> json) list"

fun is_finite :: "jsnum \<Rightarrow> bool" where
  "is_finite (Finite neg ds n) = True"
| "is_finite _ = False"

text \<open>The values a JavaScript program can actually hold: digits are digits, the digit
  string is normalised, and the keys of an object are pairwise distinct.\<close>

fun wf_num :: "jsnum \<Rightarrow> bool" where
  "wf_num (Finite neg ds n) =
     (list_all (\<lambda>d. d < 10) ds \<and> (if ds = [] then n = 0 else hd ds \<noteq> 0 \<and> last ds \<noteq> 0))"
| "wf_num _ = True"

fun wf_json :: "json \<Rightarrow> bool" where
  "wf_json (JNum x) = wf_num x"
| "wf_json (JArr vs) = list_all wf_json vs"
| "wf_json (JObj kvs) = (distinct (map fst kvs) \<and> list_all (\<lambda>kv. wf_json (snd kv)) kvs)"
| "wf_json _ = True"

text \<open>Values in which every number is finite and none is negative zero.\<close>

fun plain_num :: "jsnum \<Rightarrow> bool" where
  "plain_num (Finite neg ds n) = (ds = [] \<longrightarrow> \<not> neg)"
| "plain_num _ = False"

fun plain_json :: "json \<Rightarrow> bool" where
  "plain_json (JNum x) = plain_num x"
| "plain_json (JArr vs) = list_all plain_json vs"
| "plain_json (JObj kvs) = list_all (\<lambda>kv. plain_json (snd kv)) kvs"
| "plain_json _ = True"

section \<open>\<^verbatim>\<open>JSON.stringify\<close>\<close>

abbreviation DQ :: char where "DQ \<equiv> CHR 0x22"
abbreviation BSL :: char where "BSL \<equiv> CHR 0x5C"

definition digit_char :: "nat \<Rightarrow> char" where
  "digit_char d = char_of (48 + d)"

definition is_digit :: "char \<Rightarrow> bool" where
  "is_digit c = (48 \<le> (of_char c :: nat) \<and> (of_char c :: nat) \<le> 57)"

definition digit_val :: "char \<Rightarrow> nat" where
  "digit_val c = of_char c - 48"

fun show_nat :: "nat \<Rightarrow> string" where
  "show_nat n = (if n < 10 then [digit_char n] else show_nat (n div 10) @ [digit_char (n mod 10)])"

definition read_nat :: "string \<Rightarrow> nat" where
  "read_nat s = foldl (\<lambda>a c. 10 * a + digit_val c) 0 s"

text \<open>
  \<^verbatim>\<open>Number::toString(x, 10)\<close>, ECMA-262 6.1.6.1.20, with \<open>k\<close> the number of digits:
  plain digits when \<open>k \<le> n \<le> 21\<close>, a decimal point inside when \<open>0 < n < k\<close>, leading
  \<open>0.00\<close> when \<open>-5 \<le> n \<le> 0\<close>, and scientific notation with exponent \<open>n - 1\<close> otherwise.
\<close>

definition magnitude_to_string :: "nat list \<Rightarrow> int \<Rightarrow> string" where
  "magnitude_to_string ds n =
     (let k = int (length ds); s = map digit_char ds in
      if -5 \<le> n \<and> n \<le> 21 then
        (if k \<le> n then s @ replicate (nat (n - k)) (CHR ''0'')
         else if 0 < n then take (nat n) s @ ''.'' @ drop (nat n) s
         else ''0.'' @ replicate (nat (- n)) (CHR ''0'') @ s)
      else
        (if k = 1 then s else take 1 s @ ''.'' @ drop 1 s)
        @ ''e'' @ (if n - 1 < 0 then ''-'' else ''+'') @ show_nat (nat \<bar>n - 1\<bar>))"

definition number_to_string :: "jsnum \<Rightarrow> string" where
  "number_to_string x =
     (case x of
        NaN \<Rightarrow> ''NaN''
      | PosInf \<Rightarrow> ''Infinity''
      | NegInf \<Rightarrow> ''-Infinity''
      | Finite neg ds n \<Rightarrow>
          if ds = [] then ''0''
          else (if neg then ''-'' else []) @ magnitude_to_string ds n)"

definition hex_char :: "nat \<Rightarrow> char" where
  "hex_char d = (if d < 10 then char_of (48 + d) else char_of (87 + d))"

text \<open>\<^verbatim>\<open>QuoteJSONString\<close>: the two-character escapes, \<^verbatim>\<open>\u00xx\<close> for the other control
  characters, every other character as it is.\<close>

definition quote_char :: "char \<Rightarrow> string" where
  "quote_char c =
     (if c = CHR 0x08 then [BSL, CHR ''b'']
      else if c = CHR 0x09 then [BSL, CHR ''t'']
      else if c = CHR 0x0A then [BSL, CHR ''n'']
      else if c = CHR 0x0C then [BSL, CHR ''f'']
      else if c = CHR 0x0D then [BSL, CHR ''r'']
      else if c = DQ then [BSL, DQ]
      else if c = BSL then [BSL, BSL]
      else if (of_char c :: nat) < 32
        then [BSL, CHR ''u'', CHR ''0'', CHR ''0'',
              hex_char (of_char c div 16), hex_char (of_char c mod 16)]
      else [c])"

definition quote_json_string :: "string \<Rightarrow> string" where
  "quote_json_string s = DQ # concat (map quote_char s) @ [DQ]"

fun join_comma :: "string list \<Rightarrow> string" where
  "join_comma [] = []"
| "join_comma [x] = x"
| "join_comma (x # y # ys) = x @ '','' @ join_comma (y # ys)"

text \<open>\<^verbatim>\<open>JSON.stringify(value)\<close> with no replacer and no indentation
  (\<^verbatim>\<open>SerializeJSONProperty\<close>): a number that is not finite is written \<^verbatim>\<open>null\<close>.\<close>

fun stringify :: "json \<Rightarrow> string" where
  "stringify JNull = ''null''"
| "stringify (JBool b) = (if b then ''true'' else ''false'')"
| "stringify (JNum x) = (if is_finite x then number_to_string x else ''null'')"
| "stringify (JStr s) = quote_json_string s"
| "stringify (JArr vs) = ''['' @ join_comma (map stringify vs) @ '']''"
| "stringify (JObj kvs) =
     ''{'' @ join_comma (map (\<lambda>(k, v). quote_json_string k @ '':'' @ stringify v) kvs) @ ''}''"

section \<open>\<^verbatim>\<open>JSON.parse\<close>\<close>

text \<open>
  The decoder that a caller applies to the text of a content block: the JSON grammar of
  ECMA-404 by recursive descent. The fuel bounds the number of nested calls; the decoder
  starts with the length of the text, which is enough for every text that
  \<^verbatim>\<open>JSON.stringify\<close> writes (\<open>fuel_le_length\<close> below). A repeated key overwrites the
  earlier value of that key.
\<close>

definition is_ws :: "char \<Rightarrow> bool" where
  "is_ws c = (c = CHR 0x20 \<or> c = CHR 0x09 \<or> c = CHR 0x0A \<or> c = CHR 0x0D)"

definition hex_val :: "char \<Rightarrow> nat option" where
  "hex_val c =
     (let n = (of_char c :: nat) in
      if 48 \<le> n \<and> n \<le> 57 then Some (n - 48)
      else if 97 \<le> n \<and> n \<le> 102 then Some (n - 87)
      else if 65 \<le> n \<and> n \<le> 70 then Some (n - 55)
      else None)"

definition hex4 :: "char \<Rightarrow> char \<Rightarrow> char \<Rightarrow> char \<Rightarrow> nat option" where
  "hex4 a b c d =
     (case (hex_val a, hex_val b, hex_val c, hex_val d) of
        (Some w, Some x, Some y, Some z) \<Rightarrow> Some (((w * 16 + x) * 16 + y) * 16 + z)
      | _ \<Rightarrow> None)"

definition unescape :: "char \<Rightarrow> char option" where
  "unescape e =
     (if e = DQ then Some DQ
      else if e = BSL then Some BSL
      else if e = CHR ''/'' then Some (CHR ''/'')
      else if e = CHR ''b'' then Some (CHR 0x08)
      else if e = CHR ''f'' then Some (CHR 0x0C)
      else if e = CHR ''n'' then Some (CHR 0x0A)
      else if e = CHR ''r'' then Some (CHR 0x0D)
      else if e = CHR ''t'' then Some (CHR 0x09)
      else None)"

text \<open>The UTF-8 bytes of a code point, and the code point that a pair of surrogates
  stands for.\<close>

definition utf8 :: "nat \<Rightarrow> string" where
  "utf8 n =
     (if n < 0x80 then [char_of n]
      else if n < 0x800 then [char_of (0xC0 + n div 64), char_of (0x80 + n mod 64)]
      else if n < 0x10000 then
        [char_of (0xE0 + n div 4096), char_of (0x80 + n div 64 mod 64), char_of (0x80 + n mod 64)]
      else
        [char_of (0xF0 + n div 262144), char_of (0x80 + n div 4096 mod 64),
         char_of (0x80 + n div 64 mod 64), char_of (0x80 + n mod 64)])"

definition is_high_surrogate :: "nat \<Rightarrow> bool" where
  "is_high_surrogate n = (0xD800 \<le> n \<and> n < 0xDC00)"

definition is_low_surrogate :: "nat \<Rightarrow> bool" where
  "is_low_surrogate n = (0xDC00 \<le> n \<and> n < 0xE000)"

definition surrogate_pair :: "nat \<Rightarrow> nat \<Rightarrow> nat" where
  "surrogate_pair hi lo = 0x10000 + (hi - 0xD800) * 1024 + (lo - 0xDC00)"

text \<open>
  The characters of a string literal after its opening quote, up to and including the
  closing quote. An escape \<^verbatim>\<open>\uXXXX\<close> gives the character with that code; a high
  surrogate has to be followed by the escape of a low one, the two giving one character.
  An unpaired surrogate gives no string of the model.
\<close>

fun parse_chars :: "string \<Rightarrow> (string \<times> string) option" where
  "parse_chars [] = None"
| "parse_chars (c # cs) =
     (if c = DQ then Some ([], cs)
      else if c = BSL then
        (case cs of
           [] \<Rightarrow> None
         | e # cs1 \<Rightarrow>
             if e = CHR ''u'' then
               (case cs1 of
                  h1 # h2 # h3 # h4 # cs2 \<Rightarrow>
                    (case hex4 h1 h2 h3 h4 of
                       None \<Rightarrow> None
                     | Some n \<Rightarrow>
                         if is_high_surrogate n then
                           (case cs2 of
                              b # u # l1 # l2 # l3 # l4 # cs3 \<Rightarrow>
                                if b = BSL \<and> u = CHR ''u'' then
                                  (case hex4 l1 l2 l3 l4 of
                                     None \<Rightarrow> None
                                   | Some m \<Rightarrow>
                                       if is_low_surrogate m then
                                         map_option (apfst ((@) (utf8 (surrogate_pair n m))))
                                           (parse_chars cs3)
                                       else None)
                                else None
                            | _ \<Rightarrow> None)
                         else if is_low_surrogate n then None
                         else map_option (apfst ((@) (utf8 n))) (parse_chars cs2))
                | _ \<Rightarrow> None)
             else
               (case unescape e of
                  None \<Rightarrow> None
                | Some d \<Rightarrow> map_option (apfst ((#) d)) (parse_chars cs1)))
      else if (of_char c :: nat) < 32 then None
      else map_option (apfst ((#) c)) (parse_chars cs))"

definition parse_frac :: "string \<Rightarrow> (string \<times> string) option" where
  "parse_frac s =
     (if s \<noteq> [] \<and> hd s = CHR ''.'' then
        (let fp = takeWhile is_digit (tl s) in
         if fp = [] then None else Some (fp, dropWhile is_digit (tl s)))
      else Some ([], s))"

definition parse_exp :: "string \<Rightarrow> (int \<times> string) option" where
  "parse_exp s =
     (if s \<noteq> [] \<and> (hd s = CHR ''e'' \<or> hd s = CHR ''E'') then
        (let t = tl s;
             minus = (t \<noteq> [] \<and> hd t = CHR ''-'');
             t1 = (if t \<noteq> [] \<and> (hd t = CHR ''-'' \<or> hd t = CHR ''+'') then tl t else t);
             ds = takeWhile is_digit t1
         in if ds = [] then None
            else Some (if minus then - int (read_nat ds) else int (read_nat ds),
                       dropWhile is_digit t1))
      else Some (0, s))"

text \<open>The value of the literal with integer digits \<open>ip\<close>, fraction digits \<open>fp\<close> and
  exponent \<open>ex\<close>, normalised to significant digits and exponent.\<close>

definition mk_number :: "bool \<Rightarrow> string \<Rightarrow> string \<Rightarrow> int \<Rightarrow> jsnum" where
  "mk_number neg ip fp ex =
     (let ds = map digit_val (ip @ fp);
          z = length (takeWhile (\<lambda>d. d = 0) ds);
          sig = rev (dropWhile (\<lambda>d. d = 0) (rev (dropWhile (\<lambda>d. d = 0) ds)))
      in if sig = [] then Finite neg [] 0
         else Finite neg sig (int (length ip) - int z + ex))"

text \<open>The literal after its optional minus sign: integer part without a leading zero,
  optional fraction, optional exponent.\<close>

definition lex_number :: "bool \<Rightarrow> string \<Rightarrow> (jsnum \<times> string) option" where
  "lex_number neg s1 =
     (let ip = takeWhile is_digit s1
      in if ip = [] \<or> (hd ip = CHR ''0'' \<and> 1 < length ip) then None
         else
           (case parse_frac (dropWhile is_digit s1) of
              None \<Rightarrow> None
            | Some (fp, s3) \<Rightarrow>
                (case parse_exp s3 of
                   None \<Rightarrow> None
                 | Some (ex, s4) \<Rightarrow> Some (mk_number neg ip fp ex, s4))))"

definition parse_number :: "string \<Rightarrow> (jsnum \<times> string) option" where
  "parse_number s =
     (if s \<noteq> [] \<and> hd s = CHR ''-'' then lex_number True (tl s) else lex_number False s)"

fun obj_put :: "string \<Rightarrow> json \<Rightarrow> (string \<times> json) list \<Rightarrow> (string \<times> json) list" where
  "obj_put k v [] = [(k, v)]"
| "obj_put k v ((k', v') # kvs) =
     (if k = k' then (k, v) # kvs else (k', v') # obj_put k v kvs)"

definition build_object :: "(string \<times> json) list \<Rightarrow> (string \<times> json) list" where
  "build_object kvs = foldl (\<lambda>acc (k, v). obj_put k v acc) [] kvs"

fun parse_value :: "nat \<Rightarrow> string \<Rightarrow> (json \<times> string) option"
  and parse_elems :: "nat \<Rightarrow> string \<Rightarrow> (json list \<times> string) option"
  and parse_members :: "nat \<Rightarrow> string \<Rightarrow> ((string \<times> json) list \<times> string) option"
where
  "parse_value 0 s = None"
| "parse_value (Suc n) s =
     (case dropWhile is_ws s of
        [] \<Rightarrow> None
      | c # cs \<Rightarrow>
          if c = CHR ''n'' then (if take 3 cs = ''ull'' then Some (JNull, drop 3 cs) else None)
          else if c = CHR ''t'' then
            (if take 3 cs = ''rue'' then Some (JBool True, drop 3 cs) else None)
          else if c = CHR ''f'' then
            (if take 4 cs = ''alse'' then Some (JBool False, drop 4 cs) else None)
          else if c = DQ then map_option (apfst JStr) (parse_chars cs)
          else if c = CHR ''['' then
            (case dropWhile is_ws cs of
               [] \<Rightarrow> None
             | d # ds \<Rightarrow>
                 if d = CHR '']'' then Some (JArr [], ds)
                 else map_option (apfst JArr) (parse_elems n cs))
          else if c = CHR ''{'' then
            (case dropWhile is_ws cs of
               [] \<Rightarrow> None
             | d # ds \<Rightarrow>
                 if d = CHR ''}'' then Some (JObj [], ds)
                 else map_option (apfst (\<lambda>kvs. JObj (build_object kvs))) (parse_members n cs))
          else if c = CHR ''-'' \<or> is_digit c then
            map_option (apfst JNum) (parse_number (c # cs))
          else None)"
| "parse_elems 0 s = None"
| "parse_elems (Suc n) s =
     (case parse_value n s of
        None \<Rightarrow> None
      | Some (v, r) \<Rightarrow>
          (case dropWhile is_ws r of
             [] \<Rightarrow> None
           | c # cs \<Rightarrow>
               if c = CHR '','' then
                 (case parse_elems n cs of
                    None \<Rightarrow> None
                  | Some (vs, r') \<Rightarrow> Some (v # vs, r'))
               else if c = CHR '']'' then Some ([v], cs)
               else None))"
| "parse_members 0 s = None"
| "parse_members (Suc n) s =
     (case dropWhile is_ws s of
        [] \<Rightarrow> None
      | q # cs \<Rightarrow>
          if q = DQ then
            (case parse_chars cs of
               None \<Rightarrow> None
             | Some (k, r) \<Rightarrow>
                 (case dropWhile is_ws r of
                    [] \<Rightarrow> None
                  | c # r1 \<Rightarrow>
                      if c = CHR '':'' then
                        (case parse_value n r1 of
                           None \<Rightarrow> None
                         | Some (v, r2) \<Rightarrow>
                             (case dropWhile is_ws r2 of
                                [] \<Rightarrow> None
                              | d # r3 \<Rightarrow>
                                  if d = CHR '','' then
                                    (case parse_members n r3 of
                                       None \<Rightarrow> None
                                     | Some (kvs, r4) \<Rightarrow> Some ((k, v) # kvs, r4))
                                  else if d = CHR ''}'' then Some ([(k, v)], r3)
                                  else None))
                      else None))
          else None)"

definition JSON_parse :: "string \<Rightarrow> json option" where
  "JSON_parse s =
     (case parse_value (length s) s of
        None \<Rightarrow> None
      | Some (v, r) \<Rightarrow> if dropWhile is_ws r = [] then Some v else None)"

definition valid_json :: "string \<Rightarrow> bool" where
  "valid_json s = (JSON_parse s \<noteq> None)"

text \<open>What decoding the encoding of a value gives: a non-finite number has become
  \<^verbatim>\<open>null\<close> and negative zero has lost its sign.\<close>

fun canon_num :: "jsnum \<Rightarrow> json" where
  "canon_num (Finite neg ds n) = JNum (Finite (neg \<and> ds \<noteq> []) ds n)"
| "canon_num _ = JNull"

fun canon :: "json \<Rightarrow> json" where
  "canon (JNum x) = canon_num x"
| "canon (JArr vs) = JArr (map canon vs)"
| "canon (JObj kvs) = JObj (map (\<lambda>(k, v). (k, canon v)) kvs)"
| "canon v = v"

text \<open>Auxiliary notions of the proofs: what may follow a value inside a JSON text, the
  characters a value can begin with, and a number of nested calls that suffices to decode
  the encoding of a value.\<close>

definition delimited :: "string \<Rightarrow> bool" where
  "delimited r = (r = [] \<or> hd r = CHR '','' \<or> hd r = CHR '']'' \<or> hd r = CHR ''}'')"

definition value_start :: "char \<Rightarrow> bool" where
  "value_start c =
     (c = CHR ''n'' \<or> c = CHR ''t'' \<or> c = CHR ''f'' \<or> c = DQ \<or> c = CHR ''[''
      \<or> c = CHR ''{'' \<or> c = CHR ''-'' \<or> is_digit c)"

fun fuel_of :: "json \<Rightarrow> nat" where
  "fuel_of (JArr vs) = Suc (sum_list (map (\<lambda>v. Suc (fuel_of v)) vs))"
| "fuel_of (JObj kvs) = Suc (sum_list (map (\<lambda>(k, v). Suc (fuel_of v)) kvs))"
| "fuel_of v = Suc 0"

section \<open>The world outside the handlers\<close>

text \<open>
  A content block \<^verbatim>\<open>{ type, text }\<close> and the result \<^verbatim>\<open>{ content: [...] }\<close> that a tool
  returns (the fields \<^verbatim>\<open>type\<close> and \<^verbatim>\<open>text\<close> are \<open>block_type\<close> and \<open>block_text\<close> here).
\<close>

record content_block =
  block_type :: string
  block_text :: string

record envelope =
  content :: "content_block list"

text \<open>
  What a \<^verbatim>\<open>catch\<close> clause can receive: an \<^verbatim>\<open>Error\<close> object with its message (and, for
  an error of axios, the status of the response if there was one), or any other value,
  given by what \<^verbatim>\<open>String(value)\<close> makes of it.
\<close>

datatype thrown = ErrorObject string "nat option" | OtherValue string

record response =
  status :: nat
  statusText :: string
  data :: json

text \<open>The second argument of \<^verbatim>\<open>axios.get\<close>. A property whose value is \<^verbatim>\<open>undefined\<close> is
  \<open>None\<close>.\<close>

record axios_config =
  headers :: "(string \<times> string option) list"
  params :: "(string \<times> string option) list"

text \<open>
  The effects of a handler, in the order they happen: a line on the console
  (\<^verbatim>\<open>console.log\<close> with its first argument and the value whose indented JSON text is the
  second, \<^verbatim>\<open>console.error\<close> with its two arguments) and a GET request through axios.
\<close>

datatype event =
    ConsoleLog string json
  | ConsoleError string thrown
  | AxiosGet string axios_config

text \<open>
  The surroundings of the process: the environment variable read at start, the string
  that the \<open>k\<close>-th \<^verbatim>\<open>new Date().toISOString()\<close> returns, and the outcome of a GET request,
  which either rejects with a thrown value (no response, or a status outside 2xx) or
  resolves to a response.
\<close>

record env =
  COINGECKO_API_KEY :: "string option"
  now :: "nat \<Rightarrow> string"
  axios_get :: "string \<Rightarrow> axios_config \<Rightarrow> thrown + response"

record world =
  clock :: nat
  trace :: "event list"

fun upstream_requests :: "event list \<Rightarrow> (string \<times> axios_config) list" where
  "upstream_requests [] = []"
| "upstream_requests (AxiosGet url config # es) = (url, config) # upstream_requests es"
| "upstream_requests (e # es) = upstream_requests es"

text \<open>The query parameters that axios renders into the URL: a parameter whose value is
  \<^verbatim>\<open>undefined\<close> is skipped, every other one is sent, an empty string as an empty value.\<close>

definition query_params :: "(string \<times> string option) list \<Rightarrow> (string \<times> string) list" where
  "query_params ps = List.map_filter (\<lambda>(k, v). map_option (Pair k) v) ps"

text \<open>An object literal as \<^verbatim>\<open>JSON.stringify\<close> sees it: a property whose value is
  \<^verbatim>\<open>undefined\<close> is left out.\<close>

definition js_object :: "(string \<times> json option) list \<Rightarrow> json" where
  "js_object props = JObj (List.map_filter (\<lambda>(k, v). map_option (Pair k) v) props)"

definition string_props :: "(string \<times> string option) list \<Rightarrow> json" where
  "string_props props = js_object (map (\<lambda>(k, v). (k, map_option JStr v)) props)"

text \<open>The \<^verbatim>\<open>length\<close> of a string counts UTF-16 code units: one for every byte that starts a
  character, and one more for a character of four bytes.\<close>

definition js_length :: "string \<Rightarrow> nat" where
  "js_length s =
     length (filter (\<lambda>c. \<not> (128 \<le> (of_char c :: nat) \<and> (of_char c :: nat) < 192)) s)
     + length (filter (\<lambda>c. 240 \<le> (of_char c :: nat)) s)"

definition num_of_nat :: "nat \<Rightarrow> jsnum" where
  "num_of_nat n = mk_number False (show_nat n) [] 0"

definition envelope_json :: "envelope \<Rightarrow> json" where
  "envelope_json r =
     JObj [(''content'',
            JArr (map (\<lambda>b. JObj [(''type'', JStr (block_type b)), (''text'', JStr (block_text b))])
                      (content r)))]"

definition toISOString :: "env \<Rightarrow> world \<Rightarrow> string \<times> world" where
  "toISOString env w = (now env (clock w), w\<lparr>clock := Suc (clock w)\<rparr>)"

definition console_log :: "string \<Rightarrow> json \<Rightarrow> world \<Rightarrow> world" where
  "console_log line details w = w\<lparr>trace := trace w @ [ConsoleLog line details]\<rparr>"

definition console_error :: "string \<Rightarrow> thrown \<Rightarrow> world \<Rightarrow> world" where
  "console_error msg e w = w\<lparr>trace := trace w @ [ConsoleError msg e]\<rparr>"

text \<open>\<^verbatim>\<open>await axios.get(url, config)\<close>: the request goes out, and the promise rejects or
  resolves as the surroundings decide.\<close>

definition axios_get_call ::
  "env \<Rightarrow> string \<Rightarrow> axios_config \<Rightarrow> world \<Rightarrow> (thrown + response) \<times> world" where
  "axios_get_call env url config w =
     (axios_get env url config, w\<lparr>trace := trace w @ [AxiosGet url config]\<rparr>)"

text \<open>\<^verbatim>\<open>try { body } catch (error) { handler }\<close> around computations that return normally
  (\<open>Inr\<close>) or throw (\<open>Inl\<close>).\<close>

definition try_catch ::
  "(world \<Rightarrow> (thrown + 'a) \<times> world) \<Rightarrow> (thrown \<Rightarrow> world \<Rightarrow> (thrown + 'a) \<times> world)
   \<Rightarrow> world \<Rightarrow> (thrown + 'a) \<times> world" where
  "try_catch body handler w =
     (case body w of
        (Inl error, w') \<Rightarrow> handler error w'
      | (Inr r, w') \<Rightarrow> (Inr r, w'))"

section \<open>\<^verbatim>\<open>src/index.ts\<close>\<close>

text \<open>
  The file holds the server twice: first an earlier version without logging and without
  the holdings tool (lines 1 to 107), then the current one. The definitions follow the
  current one, and line numbers are those of the file.

  \<^verbatim>\<open>logRequest\<close>, lines 118 to 121.
\<close>

definition logRequest :: "env \<Rightarrow> string \<Rightarrow> json \<Rightarrow> world \<Rightarrow> world" where
  "logRequest env type' details w =
     (let (timestamp, w1) = toISOString env w
      in console_log (''['' @ timestamp @ ''] ['' @ type' @ '']'') details w1)"

definition API_HOST :: string where
  "API_HOST = ''https://api.coingecko.com/api/v3''"

definition CG_HEADER :: "env \<Rightarrow> (string \<times> string option) list" where
  "CG_HEADER env =
     [(''x-cg-demo-api-key'', COINGECKO_API_KEY env), (''accept'', Some ''application/json'')]"

text \<open>The result literal \<^verbatim>\<open>{ content: [{ type: "text", text: v }] }\<close> of every handler.\<close>

definition text_result :: "string \<Rightarrow> envelope" where
  "text_result v = \<lparr>content = [\<lparr>block_type = ''text'', block_text = v\<rparr>]\<rparr>"

definition error_message :: "thrown \<Rightarrow> string" where
  "error_message error = (case error of ErrorObject message st \<Rightarrow> message | OtherValue s \<Rightarrow> s)"

text \<open>The \<^verbatim>\<open>hello\<close> tool, lines 158 to 164.\<close>

definition hello :: "env \<Rightarrow> world \<Rightarrow> (thrown + envelope) \<times> world" where
  "hello env w0 =
     (let w1 = logRequest env ''TOOL_CALL'' (JObj [(''tool'', JStr ''hello''), (''args'', JObj [])]) w0;
          result = text_result ''hello'';
          w2 = logRequest env ''TOOL_RESPONSE''
                 (JObj [(''tool'', JStr ''hello''), (''result'', envelope_json result)]) w1
      in (Inr result, w2))"

text \<open>The \<^verbatim>\<open>getSupportedCurrencies\<close> tool, lines 166 to 208.\<close>

definition getSupportedCurrencies :: "env \<Rightarrow> world \<Rightarrow> (thrown + envelope) \<times> world" where
  "getSupportedCurrencies env w0 =
     (let url = API_HOST @ ''/simple/supported_vs_currencies'';
          w1 = logRequest env ''TOOL_CALL''
                 (JObj [(''tool'', JStr ''getSupportedCurrencies''), (''args'', JObj [])]) w0
      in try_catch
           (\<lambda>w.
              let (ts, wa) = toISOString env w;
                  wb = logRequest env ''EXTERNAL_API_CALL''
                         (JObj [(''url'', JStr url), (''method'', JStr ''GET''),
                                (''headers'', string_props (CG_HEADER env)),
                                (''timestamp'', JStr ts)]) wa
              in case axios_get_call env url \<lparr>headers = CG_HEADER env, params = []\<rparr> wb of
                   (Inl error, wc) \<Rightarrow> (Inl error, wc)
                 | (Inr response, wc) \<Rightarrow>
                     let (ts', wd) = toISOString env wc;
                         we = logRequest env ''EXTERNAL_API_RESPONSE''
                                (JObj [(''url'', JStr url),
                                       (''status'', JNum (num_of_nat (status response))),
                                       (''statusText'', JStr (statusText response)),
                                       (''dataLength'',
                                          JNum (num_of_nat (js_length (stringify (data response))))),
                                       (''timestamp'', JStr ts')]) wd;
                         v = stringify (data response);
                         result = text_result v;
                         wf = logRequest env ''TOOL_RESPONSE''
                                (JObj [(''tool'', JStr ''getSupportedCurrencies''),
                                       (''result'', envelope_json result)]) we
                     in (Inr result, wf))
           (\<lambda>error w.
              let (ts, wa) = toISOString env w;
                  wb = logRequest env ''EXTERNAL_API_ERROR''
                         (JObj [(''url'', JStr url), (''error'', JStr (error_message error)),
                                (''timestamp'', JStr ts)]) wa;
                  wc = console_error ''Error fetching supported currencies:'' error wb;
                  v = stringify (JObj [(''error'', JStr ''Failed to fetch supported currencies'')]);
                  result = text_result v;
                  wd = logRequest env ''TOOL_ERROR_RESPONSE''
                         (JObj [(''tool'', JStr ''getSupportedCurrencies''),
                                (''result'', envelope_json result)]) wc
              in (Inr result, wd))
           w1)"

text \<open>The \<^verbatim>\<open>getCoinPrice\<close> tool, lines 211 to 268, on its validated arguments.\<close>

record coin_price_args =
  ids :: "string option"
  names :: "string option"
  symbols :: "string option"
  vs_currencies :: string

definition coin_price_params :: "coin_price_args \<Rightarrow> (string \<times> string option) list" where
  "coin_price_params a =
     [(''ids'', ids a), (''names'', names a), (''symbols'', symbols a),
      (''vs_currencies'', Some (vs_currencies a))]"

definition getCoinPrice ::
  "env \<Rightarrow> coin_price_args \<Rightarrow> world \<Rightarrow> (thrown + envelope) \<times> world" where
  "getCoinPrice env a w0 =
     (let url = API_HOST @ ''/simple/price'';
          args = string_props (coin_price_params a);
          w1 = logRequest env ''TOOL_CALL''
                 (JObj [(''tool'', JStr ''getCoinPrice''), (''args'', args)]) w0
      in try_catch
           (\<lambda>w.
              let params = coin_price_params a;
                  (ts, wa) = toISOString env w;
                  wb = logRequest env ''EXTERNAL_API_CALL''
                         (JObj [(''url'', JStr url), (''method'', JStr ''GET''),
                                (''headers'', string_props (CG_HEADER env)),
                                (''params'', string_props params),
                                (''timestamp'', JStr ts)]) wa
              in case axios_get_call env url \<lparr>headers = CG_HEADER env, params = params\<rparr> wb of
                   (Inl error, wc) \<Rightarrow> (Inl error, wc)
                 | (Inr response, wc) \<Rightarrow>
                     let (ts', wd) = toISOString env wc;
                         we = logRequest env ''EXTERNAL_API_RESPONSE''
                                (JObj [(''url'', JStr url),
                                       (''status'', JNum (num_of_nat (status response))),
                                       (''statusText'', JStr (statusText response)),
                                       (''dataLength'',
                                          JNum (num_of_nat (js_length (stringify (data response))))),
                                       (''timestamp'', JStr ts')]) wd;
                         v = stringify (data response);
                         result = text_result v;
                         wf = logRequest env ''TOOL_RESPONSE''
                                (JObj [(''tool'', JStr ''getCoinPrice''),
                                       (''result'', envelope_json result)]) we
                     in (Inr result, wf))
           (\<lambda>error w.
              let (ts, wa) = toISOString env w;
                  wb = logRequest env ''EXTERNAL_API_ERROR''
                         (JObj [(''url'', JStr url), (''error'', JStr (error_message error)),
                                (''timestamp'', JStr ts)]) wa;
                  wc = console_error ''Error fetching coin prices:'' error wb;
                  v = stringify (JObj [(''error'', JStr ''Failed to fetch coin prices'')]);
                  result = text_result v;
                  wd = logRequest env ''TOOL_ERROR_RESPONSE''
                         (JObj [(''tool'', JStr ''getCoinPrice''),
                                (''result'', envelope_json result)]) wc
              in (Inr result, wd))
           w1)"

text \<open>The \<^verbatim>\<open>getPublicCompaniesHoldings\<close> tool, lines 271 to 317, on its validated
  argument.\<close>

definition getPublicCompaniesHoldings ::
  "env \<Rightarrow> string \<Rightarrow> world \<Rightarrow> (thrown + envelope) \<times> world" where
  "getPublicCompaniesHoldings env coin_id w0 =
     (let url = API_HOST @ ''/companies/public_treasury/'' @ coin_id;
          args = JObj [(''coin_id'', JStr coin_id)];
          w1 = logRequest env ''TOOL_CALL''
                 (JObj [(''tool'', JStr ''getPublicCompaniesHoldings''), (''args'', args)]) w0
      in try_catch
           (\<lambda>w.
              let (ts, wa) = toISOString env w;
                  wb = logRequest env ''EXTERNAL_API_CALL''
                         (JObj [(''url'', JStr url), (''method'', JStr ''GET''),
                                (''headers'', string_props (CG_HEADER env)),
                                (''coin_id'', JStr coin_id),
                                (''timestamp'', JStr ts)]) wa
              in case axios_get_call env url \<lparr>headers = CG_HEADER env, params = []\<rparr> wb of
                   (Inl error, wc) \<Rightarrow> (Inl error, wc)
                 | (Inr response, wc) \<Rightarrow>
                     let (ts', wd) = toISOString env wc;
                         we = logRequest env ''EXTERNAL_API_RESPONSE''
                                (JObj [(''url'', JStr url),
                                       (''status'', JNum (num_of_nat (status response))),
                                       (''statusText'', JStr (statusText response)),
                                       (''dataLength'',
                                          JNum (num_of_nat (js_length (stringify (data response))))),
                                       (''timestamp'', JStr ts')]) wd;
                         v = stringify (data response);
                         result = text_result v;
                         wf = logRequest env ''TOOL_RESPONSE''
                                (JObj [(''tool'', JStr ''getPublicCompaniesHoldings''),
                                       (''result'', envelope_json result)]) we
                     in (Inr result, wf))
           (\<lambda>error w.
              let (ts, wa) = toISOString env w;
                  wb = logRequest env ''EXTERNAL_API_ERROR''
                         (JObj [(''url'', JStr url), (''error'', JStr (error_message error)),
                                (''timestamp'', JStr ts)]) wa;
                  wc = console_error ''Error fetching public companies holdings:'' error wb;
                  v = stringify
                        (JObj [(''error'', JStr ''Failed to fetch public companies holdings'')]);
                  result = text_result v;
                  wd = logRequest env ''TOOL_ERROR_RESPONSE''
                         (JObj [(''tool'', JStr ''getPublicCompaniesHoldings''),
                                (''result'', envelope_json result)]) wc
              in (Inr result, wd))
           w1)"

section \<open>Argument schemas and tool dispatch\<close>

text \<open>
  The schemas of lines 212 to 215 and 272 are built from four combinators of the zod
  library. Each takes the raw value of a parameter, \<open>None\<close> when the arguments object has
  no such property: \<^verbatim>\<open>z.string()\<close> accepts exactly the strings, \<^verbatim>\<open>.optional()\<close> lets an
  absent value through, \<^verbatim>\<open>.default(d)\<close> puts \<open>d\<close> in the place of an absent value, and
  \<^verbatim>\<open>z.enum([...])\<close> accepts exactly the listed strings.
\<close>

datatype issue_code = invalid_type | invalid_enum_value

definition z_string :: "json option \<Rightarrow> issue_code + string" where
  "z_string x = (case x of Some (JStr s) \<Rightarrow> Inr s | _ \<Rightarrow> Inl invalid_type)"

definition z_optional ::
  "(json option \<Rightarrow> issue_code + 'a) \<Rightarrow> json option \<Rightarrow> issue_code + 'a option" where
  "z_optional inner x =
     (case x of
        None \<Rightarrow> Inr None
      | Some v \<Rightarrow> (case inner x of Inl c \<Rightarrow> Inl c | Inr y \<Rightarrow> Inr (Some y)))"

definition z_default ::
  "(json option \<Rightarrow> issue_code + 'a) \<Rightarrow> json \<Rightarrow> json option \<Rightarrow> issue_code + 'a" where
  "z_default inner d x = (case x of None \<Rightarrow> inner (Some d) | Some v \<Rightarrow> inner x)"

definition z_enum :: "string list \<Rightarrow> json option \<Rightarrow> issue_code + string" where
  "z_enum allowed x =
     (case x of
        Some (JStr s) \<Rightarrow> if s \<in> set allowed then Inr s else Inl invalid_enum_value
      | _ \<Rightarrow> Inl invalid_type)"

text \<open>The issues of an object schema name the parameter and the reason.\<close>

definition issues_at :: "string \<Rightarrow> issue_code + 'a \<Rightarrow> (string \<times> issue_code) list" where
  "issues_at path r = (case r of Inl c \<Rightarrow> [(path, c)] | Inr y \<Rightarrow> [])"

definition empty_schema :: "(string \<times> json) list \<Rightarrow> (string \<times> issue_code) list + unit" where
  "empty_schema raw = Inr ()"

definition getCoinPrice_schema ::
  "(string \<times> json) list \<Rightarrow> (string \<times> issue_code) list + coin_price_args" where
  "getCoinPrice_schema raw =
     (let i = z_optional z_string (map_of raw ''ids'');
          n = z_optional z_string (map_of raw ''names'');
          s = z_optional z_string (map_of raw ''symbols'');
          v = z_default z_string (JStr ''usd'') (map_of raw ''vs_currencies'')
      in case (i, n, s, v) of
           (Inr i', Inr n', Inr s', Inr v') \<Rightarrow>
             Inr \<lparr>ids = i', names = n', symbols = s', vs_currencies = v'\<rparr>
         | _ \<Rightarrow>
             Inl (issues_at ''ids'' i @ issues_at ''names'' n @ issues_at ''symbols'' s
                  @ issues_at ''vs_currencies'' v))"

definition getPublicCompaniesHoldings_schema ::
  "(string \<times> json) list \<Rightarrow> (string \<times> issue_code) list + string" where
  "getPublicCompaniesHoldings_schema raw =
     (let c = z_enum [''bitcoin'', ''ethereum''] (map_of raw ''coin_id'')
      in case c of Inr c' \<Rightarrow> Inr c' | Inl code \<Rightarrow> Inl (issues_at ''coin_id'' c))"

text \<open>
  The protocol server of the SDK keeps the registered tools by name. To call a tool it
  looks the name up, parses the arguments object of the request (here the list of its
  properties) with the schema of the tool, and runs the handler on the parsed arguments
  only if that succeeded. A failed lookup or a failed parse ends the call with an error
  of its own and leaves the handler alone.
\<close>

datatype call_error =
    UnknownTool string
  | InvalidParams string "(string \<times> issue_code) list"
  | HandlerThrew thrown

type_synonym tool = "(string \<times> json) list \<Rightarrow> world \<Rightarrow> (call_error + envelope) \<times> world"

type_synonym registry = "(string \<times> string \<times> tool) list"

definition run_tool ::
  "string \<Rightarrow> ((string \<times> json) list \<Rightarrow> (string \<times> issue_code) list + 'a)
   \<Rightarrow> ('a \<Rightarrow> world \<Rightarrow> (thrown + envelope) \<times> world) \<Rightarrow> tool" where
  "run_tool name schema handler raw w =
     (case schema raw of
        Inl issues \<Rightarrow> (Inl (InvalidParams name issues), w)
      | Inr args \<Rightarrow>
          (case handler args w of
             (Inl e, w') \<Rightarrow> (Inl (HandlerThrew e), w')
           | (Inr result, w') \<Rightarrow> (Inr result, w')))"

definition server_tool ::
  "string \<Rightarrow> string \<Rightarrow> ((string \<times> json) list \<Rightarrow> (string \<times> issue_code) list + 'a)
   \<Rightarrow> ('a \<Rightarrow> world \<Rightarrow> (thrown + envelope) \<times> world) \<Rightarrow> registry \<Rightarrow> registry" where
  "server_tool name description schema handler server =
     server @ [(name, description, run_tool name schema handler)]"

text \<open>The four \<^verbatim>\<open>server.tool(...)\<close> calls that the handler of \<^verbatim>\<open>POST /mcp\<close> makes on its
  fresh server, lines 155 to 317.\<close>

definition mcp_server :: "env \<Rightarrow> registry" where
  "mcp_server env =
     (let s0 = [];
          s1 = server_tool ''hello'' ''A simple hello tool'' empty_schema (\<lambda>u. hello env) s0;
          s2 = server_tool ''getSupportedCurrencies'' ''Get supported currencies from CoinGecko''
                 empty_schema (\<lambda>u. getSupportedCurrencies env) s1;
          s3 = server_tool ''getCoinPrice'' ''Get coin prices from CoinGecko''
                 getCoinPrice_schema (getCoinPrice env) s2;
          s4 = server_tool ''getPublicCompaniesHoldings''
                 ''Get public companies Bitcoin or Ethereum holdings''
                 getPublicCompaniesHoldings_schema (getPublicCompaniesHoldings env) s3
      in s4)"

definition call_tool ::
  "env \<Rightarrow> string \<Rightarrow> (string \<times> json) list \<Rightarrow> world \<Rightarrow> (call_error + envelope) \<times> world" where
  "call_tool env name raw w =
     (case map_of (mcp_server env) name of
        None \<Rightarrow> (Inl (UnknownTool name), w)
      | Some (description, invoke) \<Rightarrow> invoke raw w)"

text \<open>An invocation with valid arguments: the name is registered and the arguments pass
  the schema registered with it.\<close>

definition valid_call :: "string \<Rightarrow> (string \<times> json) list \<Rightarrow> bool" where
  "valid_call name raw =
     (name = ''hello'' \<or> name = ''getSupportedCurrencies''
      \<or> (name = ''getCoinPrice'' \<and> \<not> isl (getCoinPrice_schema raw))
      \<or> (name = ''getPublicCompaniesHoldings'' \<and> \<not> isl (getPublicCompaniesHoldings_schema raw)))"

text \<open>Concrete surroundings for the examples: an upstream that is down, one that
  answers with a number too large for a double, which \<^verbatim>\<open>JSON.parse\<close> of axios turns into
  \<^verbatim>\<open>Infinity\<close>, and one that answers with a list of currencies.\<close>

definition world0 :: world where
  "world0 = \<lparr>clock = 0, trace = []\<rparr>"

definition env_down :: env where
  "env_down =
     \<lparr>COINGECKO_API_KEY = None, now = (\<lambda>k. ''2025-01-01T00:00:00.000Z''),
      axios_get = (\<lambda>url config. Inl (ErrorObject ''Request failed with status code 429'' (Some 429)))\<rparr>"

definition env_timeout :: env where
  "env_timeout =
     \<lparr>COINGECKO_API_KEY = None, now = (\<lambda>k. ''2025-01-01T00:00:00.000Z''),
      axios_get = (\<lambda>url config. Inl (ErrorObject ''timeout of 1000ms exceeded'' None))\<rparr>"

definition env_infinity :: env where
  "env_infinity =
     \<lparr>COINGECKO_API_KEY = None, now = (\<lambda>k. ''2025-01-01T00:00:00.000Z''),
      axios_get = (\<lambda>url config. Inr \<lparr>status = 200, statusText = ''OK'', data = JNum PosInf\<rparr>)\<rparr>"

definition env_up :: env where
  "env_up =
     \<lparr>COINGECKO_API_KEY = Some ''key'', now = (\<lambda>k. ''2025-01-01T00:00:00.000Z''),
      axios_get = (\<lambda>url config.
        Inr \<lparr>status = 200, statusText = ''OK'',
             data = JObj [(''bitcoin'', JObj [(''usd'', JNum (Finite False [6, 7, 1, 8, 7, 3, 3] 5))])]\<rparr>)\<rparr>"

section \<open>Decoding an encoded value\<close>

declare show_nat.simps [simp del]

subsection \<open>Numbers\<close>

lemma digit_char_props: "d < 10 \<Longrightarrow> is_digit (digit_char d) \<and> digit_val (digit_char d) = d"
  by (simp add: is_digit_def digit_val_def digit_char_def)

lemma of_char_digit_char: "d < 10 \<Longrightarrow> (of_char (digit_char d) :: nat) = 48 + d"
  by (simp add: digit_char_def)

lemma digit_char_zero: "d < 10 \<Longrightarrow> (digit_char d = CHR ''0'') = (d = 0)"
proof -
  assume d: "d < 10"
  have "(digit_char d = CHR ''0'') = ((of_char (digit_char d) :: nat) = of_char (CHR ''0''))"
    by (simp only: of_char_eq_iff)
  with d show ?thesis by (simp add: of_char_digit_char)
qed

lemma show_nat_digits: "list_all is_digit (show_nat n)"
proof (induction n rule: show_nat.induct)
  case (1 n)
  then show ?case
    by (subst show_nat.simps) (simp add: digit_char_props)
qed

lemma show_nat_nonempty: "show_nat n \<noteq> []"
  by (subst show_nat.simps) simp

lemma read_nat_snoc: "read_nat (s @ [c]) = 10 * read_nat s + digit_val c"
  by (simp add: read_nat_def)

lemma read_show_nat: "read_nat (show_nat n) = n"
proof (induction n rule: show_nat.induct)
  case (1 n)
  show ?case
  proof (cases "n < 10")
    case True
    then show ?thesis
      by (subst show_nat.simps) (simp add: read_nat_def digit_char_props)
  next
    case False
    then have "read_nat (show_nat (n div 10)) = n div 10" using 1 by simp
    with False show ?thesis
      by (subst show_nat.simps) (simp add: read_nat_snoc digit_char_props)
  qed
qed

lemma span_all:
  "list_all P s \<Longrightarrow> r = [] \<or> \<not> P (hd r) \<Longrightarrow> takeWhile P (s @ r) = s \<and> dropWhile P (s @ r) = r"
  by (induction s) (auto simp: takeWhile_eq_Nil_iff dropWhile_eq_self_iff)

lemma not_digit_simps [simp]:
  "\<not> is_digit (CHR ''.'')" "\<not> is_digit (CHR ''e'')" "\<not> is_digit (CHR ''E'')"
  "\<not> is_digit (CHR ''-'')" "\<not> is_digit (CHR ''+'')" "\<not> is_digit (CHR '','')"
  "\<not> is_digit (CHR '']'')" "\<not> is_digit (CHR ''}'')" "is_digit (CHR ''0'')"
  by (simp_all add: is_digit_def)

lemma delimitedD:
  "delimited r \<Longrightarrow> r = [] \<or> (\<not> is_digit (hd r) \<and> hd r \<noteq> CHR ''.'' \<and> hd r \<noteq> CHR ''e''
     \<and> hd r \<noteq> CHR ''E'' \<and> \<not> is_ws (hd r))"
  by (auto simp: delimited_def is_ws_def)

lemma parse_frac_none: "r = [] \<or> hd r \<noteq> CHR ''.'' \<Longrightarrow> parse_frac r = Some ([], r)"
  by (auto simp: parse_frac_def)

lemma parse_frac_some:
  "fp \<noteq> [] \<Longrightarrow> list_all is_digit fp \<Longrightarrow> r = [] \<or> \<not> is_digit (hd r)
   \<Longrightarrow> parse_frac (CHR ''.'' # fp @ r) = Some (fp, r)"
  using span_all [of is_digit fp r] by (simp add: parse_frac_def)

lemma parse_exp_none:
  "r = [] \<or> (hd r \<noteq> CHR ''e'' \<and> hd r \<noteq> CHR ''E'') \<Longrightarrow> parse_exp r = Some (0, r)"
  by (auto simp: parse_exp_def)

lemma parse_exp_some:
  assumes "r = [] \<or> \<not> is_digit (hd r)"
  shows "parse_exp (CHR ''e'' # (if e < 0 then ''-'' else ''+'') @ show_nat (nat \<bar>e\<bar>) @ r)
         = Some (e, r)"
  using span_all [OF show_nat_digits assms, of "nat \<bar>e\<bar>"]
  by (cases "e < 0") (simp_all add: parse_exp_def Let_def show_nat_nonempty read_show_nat)

lemma lex_number_parts:
  assumes "ip \<noteq> []" "list_all is_digit ip" "\<not> (hd ip = CHR ''0'' \<and> 1 < length ip)"
    and "t = [] \<or> \<not> is_digit (hd t)"
    and "parse_frac t = Some (fp, t')" "parse_exp t' = Some (ex, r)"
  shows "lex_number neg (ip @ t) = Some (mk_number neg ip fp ex, r)"
  using assms span_all [of is_digit ip t] by (simp add: lex_number_def)

lemma span_zeros:
  "d \<noteq> 0 \<Longrightarrow> takeWhile (\<lambda>d::nat. d = 0) (replicate z 0 @ d # xs) = replicate z 0
     \<and> dropWhile (\<lambda>d::nat. d = 0) (replicate z 0 @ d # xs) = d # xs"
  by (induction z) auto

lemma mk_number_digits:
  assumes "ds \<noteq> []" "hd ds \<noteq> 0" "last ds \<noteq> 0"
    and "map digit_val (ip @ fp) = replicate z 0 @ ds @ replicate t 0"
  shows "mk_number neg ip fp ex = Finite neg ds (int (length ip) - int z + ex)"
proof -
  let ?P = "\<lambda>d::nat. d = 0"
  obtain d ds' where ds: "ds = d # ds'" using assms(1) by (cases ds) auto
  with assms(2) have d: "d \<noteq> 0" by simp
  have tw: "takeWhile ?P (replicate z 0 @ ds @ replicate t 0) = replicate z 0"
    using span_zeros [OF d, of z "ds' @ replicate t 0"] by (simp add: ds)
  have dw: "dropWhile ?P (replicate z 0 @ ds @ replicate t 0) = ds @ replicate t 0"
    using span_zeros [OF d, of z "ds' @ replicate t 0"] by (simp add: ds)
  have "rev ds \<noteq> []" "hd (rev ds) \<noteq> 0" using assms(1,3) by (simp_all add: hd_rev)
  then obtain e es where es: "rev ds = e # es" "e \<noteq> 0" by (cases "rev ds") auto
  have "dropWhile ?P (rev (ds @ replicate t 0)) = rev ds"
    using span_zeros [OF es(2), of t es] by (simp add: es)
  then have sig: "rev (dropWhile ?P (rev (ds @ replicate t 0))) = ds" by simp
  have len: "length (replicate z (0::nat)) = z" by simp
  show ?thesis
    unfolding mk_number_def Let_def assms(4) tw dw sig len using assms(1) by simp
qed

lemma digits_str:
  "list_all (\<lambda>d. d < 10) ds \<Longrightarrow>
     list_all is_digit (map digit_char ds) \<and> map digit_val (map digit_char ds) = ds"
  by (induction ds) (simp_all add: digit_char_props)

lemma digit_val_zeros [simp]: "map digit_val (replicate t (CHR ''0'')) = replicate t 0"
  by (simp add: digit_val_def)

lemma is_digit_zeros [simp]: "list_all is_digit (replicate t (CHR ''0''))"
  by (induction t) simp_all

lemma list_all_take_drop:
  "list_all P xs \<Longrightarrow> list_all P (take n xs) \<and> list_all P (drop n xs)"
  by (auto simp: list_all_iff dest: in_set_takeD in_set_dropD)

lemma lex_magnitude:
  assumes lt: "list_all (\<lambda>d. d < 10) ds" and ne: "ds \<noteq> []"
    and h: "hd ds \<noteq> 0" and l: "last ds \<noteq> 0" and r: "delimited r"
  shows "lex_number neg (magnitude_to_string ds n @ r) = Some (Finite neg ds n, r)"
proof -
  let ?s = "map digit_char ds"
  let ?k = "int (length ds)"
  note dg = digits_str [OF lt]
  from delimitedD [OF r]
  have r1: "r = [] \<or> \<not> is_digit (hd r)" and r2: "r = [] \<or> hd r \<noteq> CHR ''.''"
    and r3: "r = [] \<or> (hd r \<noteq> CHR ''e'' \<and> hd r \<noteq> CHR ''E'')" by auto
  have hd0: "hd ?s \<noteq> CHR ''0''"
    using ne h lt by (cases ds) (simp_all add: digit_char_zero)
  have k1: "1 \<le> ?k" using ne by (cases ds) simp_all
  note mk = mk_number_digits [OF ne h l]
  have Dc: "map (digit_val \<circ> digit_char) ds = ds" using dg by simp
  have dz: "digit_val (CHR 0x30) = 0" by (simp add: digit_val_def)
  consider (A) "-5 \<le> n" "n \<le> 21" "?k \<le> n"
    | (B) "-5 \<le> n" "n \<le> 21" "n < ?k" "0 < n"
    | (C) "-5 \<le> n" "n \<le> 0"
    | (D) "\<not> (-5 \<le> n \<and> n \<le> 21)" "?k = 1"
    | (E) "\<not> (-5 \<le> n \<and> n \<le> 21)" "?k \<noteq> 1"
    using k1 by linarith
  then show ?thesis
  proof cases
    case A
    let ?ip = "?s @ replicate (nat (n - ?k)) (CHR ''0'')"
    have body: "magnitude_to_string ds n @ r = ?ip @ r"
      using A by (simp add: magnitude_to_string_def Let_def)
    have "lex_number neg (?ip @ r) = Some (mk_number neg ?ip [] 0, r)"
      using ne hd0 dg
      by (intro lex_number_parts [OF _ _ _ r1 parse_frac_none [OF r2] parse_exp_none [OF r3]])
         simp_all
    moreover have "mk_number neg ?ip [] 0 = Finite neg ds (int (length ?ip) - int 0 + 0)"
      by (rule mk [where t = "nat (n - ?k)"]) (simp add: dg Dc dz)
    ultimately show ?thesis using A by (simp add: body)
  next
    case B
    let ?ip = "take (nat n) ?s" and ?fp = "drop (nat n) ?s"
    have body: "magnitude_to_string ds n @ r = ?ip @ (CHR ''.'' # ?fp @ r)"
      using B by (simp add: magnitude_to_string_def Let_def)
    have ipne: "?ip \<noteq> []" and fpne: "?fp \<noteq> []" using B ne by auto
    have dig: "list_all is_digit ?ip" "list_all is_digit ?fp"
      using dg list_all_take_drop [of is_digit ?s] by simp_all
    have hdip: "hd ?ip = hd ?s" using B by (simp add: hd_take)
    have "lex_number neg (?ip @ (CHR ''.'' # ?fp @ r)) = Some (mk_number neg ?ip ?fp 0, r)"
      using ipne dig hdip hd0
      by (intro lex_number_parts [OF _ _ _ _ parse_frac_some [OF fpne dig(2) r1]
            parse_exp_none [OF r3]]) simp_all
    moreover have "mk_number neg ?ip ?fp 0 = Finite neg ds (int (length ?ip) - int 0 + 0)"
      by (rule mk [where t = 0]) (simp add: dg Dc dz)
    ultimately show ?thesis using B by (simp add: body)
  next
    case C
    let ?fp = "replicate (nat (- n)) (CHR ''0'') @ ?s"
    have body: "magnitude_to_string ds n @ r = ''0'' @ (CHR ''.'' # ?fp @ r)"
      using C k1 by (simp add: magnitude_to_string_def Let_def)
    have fpne: "?fp \<noteq> []" using ne by simp
    have dig: "list_all is_digit ?fp" using dg by simp
    have "lex_number neg (''0'' @ (CHR ''.'' # ?fp @ r)) = Some (mk_number neg ''0'' ?fp 0, r)"
      by (intro lex_number_parts [OF _ _ _ _ parse_frac_some [OF fpne dig r1]
            parse_exp_none [OF r3]]) simp_all
    moreover have "mk_number neg ''0'' ?fp 0
        = Finite neg ds (int (length ''0'') - int (Suc (nat (- n))) + 0)"
      by (rule mk [where t = 0]) (simp add: dg Dc dz)
    ultimately show ?thesis using C by (simp add: body)
  next
    case D
    let ?e = "n - 1"
    let ?ex = "CHR ''e'' # (if ?e < 0 then ''-'' else ''+'') @ show_nat (nat \<bar>?e\<bar>) @ r"
    have c: "(- 5 \<le> n \<and> n \<le> 21) = False" using D(1) by simp
    have body: "magnitude_to_string ds n @ r = ?s @ ?ex"
      using D(2) unfolding magnitude_to_string_def Let_def c by simp
    have "lex_number neg (?s @ ?ex) = Some (mk_number neg ?s [] ?e, r)"
      using ne hd0 D(2) dg
      by (intro lex_number_parts [OF _ _ _ _ parse_frac_none parse_exp_some [OF r1]]) simp_all
    moreover have "mk_number neg ?s [] ?e = Finite neg ds (int (length ?s) - int 0 + ?e)"
      by (rule mk [where t = 0]) (simp add: dg Dc dz)
    ultimately show ?thesis using D by (simp add: body)
  next
    case E
    let ?e = "n - 1"
    let ?ip = "take 1 ?s" and ?fp = "drop 1 ?s"
    let ?ex = "CHR ''e'' # (if ?e < 0 then ''-'' else ''+'') @ show_nat (nat \<bar>?e\<bar>) @ r"
    have c: "(- 5 \<le> n \<and> n \<le> 21) = False" using E(1) by simp
    have body: "magnitude_to_string ds n @ r = ?ip @ (CHR ''.'' # ?fp @ ?ex)"
      using E(2) unfolding magnitude_to_string_def Let_def c by simp
    have ipne: "?ip \<noteq> []" and fpne: "?fp \<noteq> []" using E k1 ne by auto
    have dig: "list_all is_digit ?ip" "list_all is_digit ?fp"
      using dg list_all_take_drop [of is_digit ?s] by simp_all
    have hdip: "hd ?ip = hd ?s" by (simp add: hd_take)
    have fr: "parse_frac (CHR ''.'' # ?fp @ ?ex) = Some (?fp, ?ex)"
      by (rule parse_frac_some [OF fpne dig(2)]) simp
    have "lex_number neg (?ip @ (CHR ''.'' # ?fp @ ?ex)) = Some (mk_number neg ?ip ?fp ?e, r)"
      using ipne dig hdip hd0
      by (intro lex_number_parts [OF _ _ _ _ fr parse_exp_some [OF r1]]) simp_all
    moreover have "mk_number neg ?ip ?fp ?e = Finite neg ds (int (length ?ip) - int 0 + ?e)"
      by (rule mk [where t = 0]) (simp add: dg Dc dz)
    ultimately show ?thesis using E k1 by (simp add: body min_def)
  qed
qed

lemma lex_number_Some_hd: "lex_number neg s = Some y \<Longrightarrow> s \<noteq> [] \<and> is_digit (hd s)"
  by (cases s) (auto simp: lex_number_def Let_def split: if_splits)

lemma parse_number_to_string:
  assumes wf: "wf_num (Finite neg ds n)" and r: "delimited r"
  shows "parse_number (number_to_string (Finite neg ds n) @ r)
         = Some (Finite (neg \<and> ds \<noteq> []) ds n, r)"
proof (cases "ds = []")
  case True
  from delimitedD [OF r]
  have r1: "r = [] \<or> \<not> is_digit (hd r)" and r2: "r = [] \<or> hd r \<noteq> CHR ''.''"
    and r3: "r = [] \<or> (hd r \<noteq> CHR ''e'' \<and> hd r \<noteq> CHR ''E'')" by auto
  have "lex_number False (''0'' @ r) = Some (mk_number False ''0'' [] 0, r)"
    by (intro lex_number_parts [OF _ _ _ r1 parse_frac_none [OF r2] parse_exp_none [OF r3]])
       simp_all
  moreover have "mk_number False ''0'' [] 0 = Finite False [] 0"
    by (simp add: mk_number_def digit_val_def)
  ultimately show ?thesis using True wf
    by (simp add: parse_number_def number_to_string_def)
next
  case False
  with wf have lex: "lex_number b (magnitude_to_string ds n @ r) = Some (Finite b ds n, r)" for b
    by (intro lex_magnitude [OF _ _ _ _ r]) simp_all
  show ?thesis
  proof (cases neg)
    case True
    with False lex [of True] show ?thesis
      by (simp add: parse_number_def number_to_string_def)
  next
    case neg: False
    from lex_number_Some_hd [OF lex [of False]]
    have "magnitude_to_string ds n @ r \<noteq> []" "hd (magnitude_to_string ds n @ r) \<noteq> CHR ''-''"
      by auto
    with neg False lex [of False] show ?thesis
      by (simp add: parse_number_def number_to_string_def)
  qed
qed

lemma number_to_string_start:
  assumes wf: "wf_num (Finite neg ds n)" and r: "delimited r"
  shows "\<exists>c cs. number_to_string (Finite neg ds n) @ r = c # cs \<and> (c = CHR ''-'' \<or> is_digit c)"
proof (cases "ds = []")
  case True
  then show ?thesis by (simp add: number_to_string_def)
next
  case False
  with wf have "lex_number False (magnitude_to_string ds n @ r) = Some (Finite False ds n, r)"
    by (intro lex_magnitude [OF _ _ _ _ r]) simp_all
  from lex_number_Some_hd [OF this] obtain c cs
    where "magnitude_to_string ds n @ r = c # cs" "is_digit c"
    by (cases "magnitude_to_string ds n @ r") auto
  with False show ?thesis by (cases neg) (simp_all add: number_to_string_def)
qed

subsection \<open>Strings\<close>

lemma hex_val_hex_char: "d < 16 \<Longrightarrow> hex_val (hex_char d) = Some d"
  by (simp add: hex_val_def hex_char_def)

lemma hex4_escape:
  "(of_char c :: nat) < 32 \<Longrightarrow>
   hex4 (CHR ''0'') (CHR ''0'') (hex_char (of_char c div 16)) (hex_char (of_char c mod 16))
     = Some (of_char c)"
proof -
  assume c: "(of_char c :: nat) < 32"
  then have "(of_char c :: nat) div 16 < 16" by simp
  moreover have "hex_val (CHR ''0'') = Some 0" by (simp add: hex_val_def)
  ultimately show ?thesis
    by (simp add: hex4_def hex_val_hex_char)
qed

lemma quote_char_control:
  assumes "(of_char c :: nat) < 32" "c \<noteq> CHR 0x08" "c \<noteq> CHR 0x09" "c \<noteq> CHR 0x0A" "c \<noteq> CHR 0x0C" "c \<noteq> CHR 0x0D"
  shows "quote_char c = [BSL, CHR ''u'', CHR ''0'', CHR ''0'',
      hex_char (of_char c div 16), hex_char (of_char c mod 16)]"
proof -
  have "c \<noteq> DQ" "c \<noteq> BSL" using assms(1) by auto
  with assms show ?thesis unfolding quote_char_def by simp
qed

lemma parse_chars_escape:
  assumes "unescape e = Some d" "e \<noteq> CHR ''u''"
  shows "parse_chars (BSL # e # t) = map_option (apfst ((#) d)) (parse_chars t)"
  using assms by simp

lemma parse_chars_uescape:
  assumes "hex4 h1 h2 h3 h4 = Some n" "n < 128"
  shows "parse_chars (BSL # CHR ''u'' # h1 # h2 # h3 # h4 # t)
         = map_option (apfst ((#) (char_of n))) (parse_chars t)"
proof -
  have "(@) [char_of n] = (#) (char_of n)" by (rule ext) simp
  with assms show ?thesis
    by (simp add: is_high_surrogate_def is_low_surrogate_def utf8_def)
qed

lemma parse_chars_plain:
  assumes "c \<noteq> DQ" "c \<noteq> BSL" "\<not> (of_char c :: nat) < 32"
  shows "parse_chars (c # t) = map_option (apfst ((#) c)) (parse_chars t)"
  using assms by simp

lemma unescape_simps:
  "unescape (CHR ''b'') = Some (CHR 0x08)" "unescape (CHR ''t'') = Some (CHR 0x09)"
  "unescape (CHR ''n'') = Some (CHR 0x0A)" "unescape (CHR ''f'') = Some (CHR 0x0C)"
  "unescape (CHR ''r'') = Some (CHR 0x0D)" "unescape DQ = Some DQ" "unescape BSL = Some BSL"
  by (simp_all add: unescape_def)

lemma parse_chars_quote_char:
  "parse_chars (quote_char c @ t) = map_option (apfst ((#) c)) (parse_chars t)"
proof -
  consider (b) "c = CHR 0x08" | (t) "c = CHR 0x09" | (n) "c = CHR 0x0A" | (f) "c = CHR 0x0C"
    | (r) "c = CHR 0x0D" | (q) "c = DQ" | (s) "c = BSL"
    | (u) "(of_char c :: nat) < 32" "c \<noteq> CHR 0x08" "c \<noteq> CHR 0x09" "c \<noteq> CHR 0x0A"
          "c \<noteq> CHR 0x0C" "c \<noteq> CHR 0x0D"
    | (p) "\<not> (of_char c :: nat) < 32" "c \<noteq> DQ" "c \<noteq> BSL"
    by blast
  then show ?thesis
  proof cases
    case b
    have "quote_char c = [BSL, CHR ''b'']" by (simp add: b quote_char_def)
    then show ?thesis using parse_chars_escape [OF unescape_simps(1)] b by simp
  next
    case t
    have "quote_char c = [BSL, CHR ''t'']" by (simp add: t quote_char_def)
    then show ?thesis using parse_chars_escape [OF unescape_simps(2)] t by simp
  next
    case n
    have "quote_char c = [BSL, CHR ''n'']" by (simp add: n quote_char_def)
    then show ?thesis using parse_chars_escape [OF unescape_simps(3)] n by simp
  next
    case f
    have "quote_char c = [BSL, CHR ''f'']" by (simp add: f quote_char_def)
    then show ?thesis using parse_chars_escape [OF unescape_simps(4)] f by simp
  next
    case r
    have "quote_char c = [BSL, CHR ''r'']" by (simp add: r quote_char_def)
    then show ?thesis using parse_chars_escape [OF unescape_simps(5)] r by simp
  next
    case q
    have "quote_char c = [BSL, DQ]" by (simp add: q quote_char_def)
    then show ?thesis using parse_chars_escape [OF unescape_simps(6)] q by simp
  next
    case s
    have "quote_char c = [BSL, BSL]" by (simp add: s quote_char_def)
    then show ?thesis using parse_chars_escape [OF unescape_simps(7)] s by simp
  next
    case u
    from u(1) have lt: "(of_char c :: nat) < 128" by simp
    show ?thesis
      using parse_chars_uescape [OF hex4_escape [OF u(1)] lt, of t]
      by (simp add: quote_char_control [OF u] del: parse_chars.simps)
  next
    case p
    then have "c \<noteq> CHR 0x08" "c \<noteq> CHR 0x09" "c \<noteq> CHR 0x0A" "c \<noteq> CHR 0x0C" "c \<noteq> CHR 0x0D"
      by auto
    with p have "quote_char c = [c]" by (simp add: quote_char_def)
    then show ?thesis using parse_chars_plain [OF p(2,3,1), of t] by (simp del: parse_chars.simps)
  qed
qed

lemma parse_chars_quote: "parse_chars (concat (map quote_char s) @ DQ # r) = Some (s, r)"
  by (induction s) (simp_all add: parse_chars_quote_char del: parse_chars.simps, simp)

subsection \<open>Arrays and objects\<close>

lemma value_start_props:
  "value_start c \<Longrightarrow> \<not> is_ws c \<and> c \<noteq> CHR '']'' \<and> c \<noteq> CHR ''}''"
  by (auto simp: value_start_def is_ws_def is_digit_def)

lemma delimited_simps [simp]:
  "delimited []" "delimited (CHR '','' # t)" "delimited (CHR '']'' # t)" "delimited (CHR ''}'' # t)"
  by (simp_all add: delimited_def)

lemma stringify_start:
  assumes "wf_json v"
  shows "\<exists>c cs. stringify v = c # cs \<and> value_start c"
proof (cases v)
  case (JNum x)
  show ?thesis
  proof (cases x)
    case (Finite neg ds n)
    with assms JNum have "wf_num (Finite neg ds n)" by simp
    from number_to_string_start [OF this, of "[]"] Finite JNum show ?thesis
      by (auto simp: value_start_def)
  qed (simp_all add: JNum value_start_def)
qed (simp_all add: value_start_def quote_json_string_def)

lemma join_comma_cons:
  "xs \<noteq> [] \<Longrightarrow> join_comma (x # xs) = x @ CHR '','' # join_comma xs"
  by (cases xs) simp_all

lemma ws_simps [simp]:
  "\<not> is_ws (CHR '','')" "\<not> is_ws (CHR '']'')" "\<not> is_ws (CHR ''}'')" "\<not> is_ws (CHR '':'')"
  "\<not> is_ws DQ"
  by (simp_all add: is_ws_def)

lemma parse_elems_join:
  assumes IH: "\<And>v n r. v \<in> set vs \<Longrightarrow> delimited r \<Longrightarrow> fuel_of v \<le> n
                 \<Longrightarrow> parse_value n (stringify v @ r) = Some (canon v, r)"
    and "vs \<noteq> []" and "sum_list (map (\<lambda>v. Suc (fuel_of v)) vs) \<le> n"
  shows "parse_elems n (join_comma (map stringify vs) @ CHR '']'' # r) = Some (map canon vs, r)"
  using assms(2,1,3)
proof (induction vs arbitrary: n rule: list_nonempty_induct)
  case (single v)
  then obtain m where n: "n = Suc m" "fuel_of v \<le> m" by (cases n) auto
  have "parse_value m (stringify v @ CHR '']'' # r) = Some (canon v, CHR '']'' # r)"
    using single(1) [of v "CHR '']'' # r" m] n by simp
  then show ?case by (simp add: n)
next
  case (cons v vs)
  then obtain m where n: "n = Suc m" "fuel_of v \<le> m"
      "sum_list (map (\<lambda>v. Suc (fuel_of v)) vs) \<le> m" by (cases n) auto
  let ?t = "join_comma (map stringify vs) @ CHR '']'' # r"
  have v: "parse_value m (stringify v @ CHR '','' # ?t) = Some (canon v, CHR '','' # ?t)"
    using cons(3) [of v "CHR '','' # ?t" m] n by simp
  have vs: "parse_elems m ?t = Some (map canon vs, r)"
    using cons(2) [OF _ n(3)] cons(3) by simp
  from cons(1) have "join_comma (map stringify (v # vs)) = stringify v @ CHR '','' # join_comma (map stringify vs)"
    by (simp add: join_comma_cons)
  then show ?case using v vs by (simp add: n)
qed

lemma parse_members_join:
  assumes IH: "\<And>k v n r. (k, v) \<in> set kvs \<Longrightarrow> delimited r \<Longrightarrow> fuel_of v \<le> n
                 \<Longrightarrow> parse_value n (stringify v @ r) = Some (canon v, r)"
    and "kvs \<noteq> []" and "sum_list (map (\<lambda>(k, v). Suc (fuel_of v)) kvs) \<le> n"
  shows "parse_members n
           (join_comma (map (\<lambda>(k, v). quote_json_string k @ '':'' @ stringify v) kvs)
            @ CHR ''}'' # r)
         = Some (map (\<lambda>(k, v). (k, canon v)) kvs, r)"
  using assms(2,1,3)
proof (induction kvs arbitrary: n rule: list_nonempty_induct)
  case (single kv)
  obtain k v where kv: "kv = (k, v)" by (cases kv)
  with single obtain m where n: "n = Suc m" "fuel_of v \<le> m" by (cases n) auto
  have "parse_value m (stringify v @ CHR ''}'' # r) = Some (canon v, CHR ''}'' # r)"
    using single(1) [of k v "CHR ''}'' # r" m] n kv by simp
  then show ?case
    by (simp add: n kv quote_json_string_def parse_chars_quote del: parse_chars.simps)
next
  case (cons kv kvs)
  obtain k v where kv: "kv = (k, v)" by (cases kv)
  with cons obtain m where n: "n = Suc m" "fuel_of v \<le> m"
      "sum_list (map (\<lambda>(k, v). Suc (fuel_of v)) kvs) \<le> m" by (cases n) auto
  let ?f = "\<lambda>(k, v). quote_json_string k @ '':'' @ stringify v"
  let ?t = "join_comma (map ?f kvs) @ CHR ''}'' # r"
  have v: "parse_value m (stringify v @ CHR '','' # ?t) = Some (canon v, CHR '','' # ?t)"
    using cons(3) [of k v "CHR '','' # ?t" m] n kv by simp
  have kvs: "parse_members m ?t = Some (map (\<lambda>(k, v). (k, canon v)) kvs, r)"
  proof (rule cons(2) [OF _ n(3)])
    fix k' v' r' n'
    assume "(k', v') \<in> set kvs" "delimited r'" "fuel_of v' \<le> n'"
    then show "parse_value n' (stringify v' @ r') = Some (canon v', r')"
      using cons(3) [of k' v' r' n'] by simp
  qed
  from cons(1) have "join_comma (map ?f (kv # kvs)) = ?f kv @ CHR '','' # join_comma (map ?f kvs)"
    by (simp add: join_comma_cons)
  then show ?case using v kvs
    by (simp add: n kv quote_json_string_def parse_chars_quote del: parse_chars.simps)
qed

lemma obj_put_fresh: "k \<notin> fst ` set acc \<Longrightarrow> obj_put k v acc = acc @ [(k, v)]"
  by (induction acc) auto

lemma foldl_obj_put:
  "distinct (map fst (acc @ kvs)) \<Longrightarrow> foldl (\<lambda>acc (k, v). obj_put k v acc) acc kvs = acc @ kvs"
proof (induction kvs arbitrary: acc)
  case Nil
  then show ?case by simp
next
  case (Cons kv kvs)
  obtain k v where kv: "kv = (k, v)" by (cases kv)
  from Cons.prems have "k \<notin> fst ` set acc" by (auto simp: kv)
  then have "obj_put k v acc = acc @ [(k, v)]" by (rule obj_put_fresh)
  moreover from Cons.prems have "distinct (map fst ((acc @ [(k, v)]) @ kvs))" by (simp add: kv)
  ultimately show ?case using Cons.IH [of "acc @ [(k, v)]"] by (simp add: kv)
qed

lemma build_object_distinct: "distinct (map fst kvs) \<Longrightarrow> build_object kvs = kvs"
  using foldl_obj_put [of "[]" kvs] by (simp add: build_object_def)

lemma map_fst_canon: "map fst (map (\<lambda>(k, v). (k, canon v)) kvs) = map fst kvs"
  by (induction kvs) auto

lemma parse_value_number:
  assumes wf: "wf_num (Finite neg ds k)" and r: "delimited r"
  shows "parse_value (Suc m) (number_to_string (Finite neg ds k) @ r)
         = Some (JNum (Finite (neg \<and> ds \<noteq> []) ds k), r)"
proof -
  from number_to_string_start [OF wf r] obtain c cs
    where s: "number_to_string (Finite neg ds k) @ r = c # cs" and c: "c = CHR ''-'' \<or> is_digit c"
    by blast
  from c have nw: "\<not> is_ws c" and c1: "c \<noteq> CHR ''n''" "c \<noteq> CHR ''t''" "c \<noteq> CHR ''f''"
      "c \<noteq> DQ" "c \<noteq> CHR ''[''" "c \<noteq> CHR ''{''"
    by (auto simp: is_ws_def is_digit_def)
  have "parse_value (Suc m) (c # cs) = map_option (apfst JNum) (parse_number (c # cs))"
    using nw c1 c by simp
  then show ?thesis
    using parse_number_to_string [OF wf r] by (simp add: s [symmetric])
qed

lemma parse_value_open_brace:
  "t = DQ # cs \<Longrightarrow> parse_value (Suc m) (CHR ''{'' # t)
     = map_option (apfst (\<lambda>kvs. JObj (build_object kvs))) (parse_members m t)"
  by (simp add: is_ws_def)

lemma parse_value_open_bracket:
  "t = c # cs \<Longrightarrow> value_start c \<Longrightarrow> parse_value (Suc m) (CHR ''['' # t)
     = map_option (apfst JArr) (parse_elems m t)"
  using value_start_props [of c] by (simp add: is_ws_def)

lemma parse_value_stringify:
  "wf_json v \<Longrightarrow> delimited r \<Longrightarrow> fuel_of v \<le> n
   \<Longrightarrow> parse_value n (stringify v @ r) = Some (canon v, r)"
proof (induction v arbitrary: n r)
  case JNull
  then obtain m where "n = Suc m" by (cases n) auto
  then show ?case by (simp add: is_ws_def)
next
  case (JBool b)
  then obtain m where "n = Suc m" by (cases n) auto
  then show ?case by (simp add: is_ws_def)
next
  case (JNum x)
  then obtain m where n: "n = Suc m" by (cases n) auto
  show ?case
  proof (cases x)
    case (Finite neg ds k)
    with JNum show ?thesis using parse_value_number [of neg ds k r m] by (simp add: n)
  qed (simp_all add: n is_ws_def)
next
  case (JStr s)
  then obtain m where "n = Suc m" by (cases n) auto
  then show ?case
    by (simp add: quote_json_string_def parse_chars_quote del: parse_chars.simps)
next
  case (JArr vs)
  then obtain m where n: "n = Suc m" "sum_list (map (\<lambda>v. Suc (fuel_of v)) vs) \<le> m"
    by (cases n) auto
  show ?case
  proof (cases vs)
    case Nil
    then show ?thesis by (simp add: n is_ws_def)
  next
    case (Cons w ws)
    let ?t = "join_comma (map stringify vs) @ CHR '']'' # r"
    have el: "parse_elems m ?t = Some (map canon vs, r)"
    proof (rule parse_elems_join [OF _ _ n(2)])
      fix v n r assume "v \<in> set vs" "delimited r" "fuel_of v \<le> n"
      with JArr.prems(1) show "parse_value n (stringify v @ r) = Some (canon v, r)"
        by (intro JArr.IH) (simp_all add: list_all_iff)
    qed (simp add: Cons)
    from JArr.prems(1) Cons have "wf_json w" by simp
    from stringify_start [OF this] obtain c cs where c: "stringify w = c # cs" "value_start c"
      by blast
    have "join_comma (map stringify vs) = c # cs @ (if ws = [] then [] else CHR '','' # join_comma (map stringify ws))"
      using c by (cases ws) (simp_all add: Cons)
    then obtain cs' where j: "?t = c # cs'" by simp
    have "parse_value (Suc m) (CHR ''['' # ?t) = map_option (apfst JArr) (parse_elems m ?t)"
      by (rule parse_value_open_bracket [OF j c(2)])
    with el show ?thesis by (simp add: n)
  qed
next
  case (JObj kvs)
  then obtain m where n: "n = Suc m" "sum_list (map (\<lambda>(k, v). Suc (fuel_of v)) kvs) \<le> m"
    by (cases n) auto
  show ?case
  proof (cases kvs)
    case Nil
    then show ?thesis by (simp add: n is_ws_def)
  next
    case (Cons kw ws)
    let ?f = "\<lambda>(k, v). quote_json_string k @ '':'' @ stringify v"
    let ?t = "join_comma (map ?f kvs) @ CHR ''}'' # r"
    let ?kvs' = "map (\<lambda>(k, v). (k, canon v)) kvs"
    have el: "parse_members m ?t = Some (?kvs', r)"
    proof (rule parse_members_join [OF _ _ n(2)])
      fix k v n r assume kv: "(k, v) \<in> set kvs" "delimited r" "fuel_of v \<le> n"
      then have "wf_json v" using JObj.prems(1) by (auto simp: list_all_iff)
      with kv show "parse_value n (stringify v @ r) = Some (canon v, r)"
        by (intro JObj.IH [of "(k, v)" v]) simp_all
    qed (simp add: Cons)
    obtain k w where kw: "kw = (k, w)" by (cases kw)
    have "join_comma (map ?f kvs) = DQ # concat (map quote_char k) @ DQ # CHR '':'' # stringify w
        @ (if ws = [] then [] else CHR '','' # join_comma (map ?f ws))"
      by (cases ws) (simp_all add: Cons kw quote_json_string_def)
    then obtain cs' where j: "?t = DQ # cs'" by simp
    have "parse_value (Suc m) (CHR ''{'' # ?t)
        = map_option (apfst (\<lambda>kvs. JObj (build_object kvs))) (parse_members m ?t)"
      by (rule parse_value_open_brace [OF j])
    moreover from JObj.prems(1) have "distinct (map fst ?kvs')"
      by (simp only: map_fst_canon) simp
    then have "build_object ?kvs' = ?kvs'" by (rule build_object_distinct)
    ultimately show ?thesis using el by (simp add: n)
  qed
qed

subsection \<open>The whole text\<close>

lemma length_join_comma:
  "sum_list (map (\<lambda>x. Suc (length x)) xs) \<le> Suc (length (join_comma xs))"
  by (induction xs rule: join_comma.induct) simp_all

lemma sum_list_mono_le:
  "(\<And>x. x \<in> set xs \<Longrightarrow> f x \<le> (g x :: nat)) \<Longrightarrow> sum_list (map f xs) \<le> sum_list (map g xs)"
  by (induction xs) (simp_all add: add_mono)

lemma fuel_le_length: "wf_json v \<Longrightarrow> fuel_of v \<le> length (stringify v)"
proof (induction v)
  case (JNum x)
  from stringify_start [OF JNum] show ?case by auto
next
  case (JArr vs)
  have "sum_list (map (\<lambda>v. Suc (fuel_of v)) vs)
      \<le> sum_list (map (\<lambda>v. Suc (length (stringify v))) vs)"
    using JArr by (intro sum_list_mono_le) (simp add: list_all_iff)
  also have "\<dots> = sum_list (map (\<lambda>x. Suc (length x)) (map stringify vs))"
    by (simp add: comp_def)
  also have "\<dots> \<le> Suc (length (join_comma (map stringify vs)))"
    by (rule length_join_comma)
  finally show ?case by simp
next
  case (JObj kvs)
  let ?f = "\<lambda>(k, v). quote_json_string k @ '':'' @ stringify v"
  have "sum_list (map (\<lambda>(k, v). Suc (fuel_of v)) kvs)
      \<le> sum_list (map (\<lambda>kv. Suc (length (?f kv))) kvs)"
  proof (rule sum_list_mono_le)
    fix kv assume kv: "kv \<in> set kvs"
    obtain k v where e: "kv = (k, v)" by (cases kv)
    with kv JObj.prems have "wf_json v" by (auto simp: list_all_iff)
    with JObj.IH [of kv v] kv e have "fuel_of v \<le> length (stringify v)" by simp
    then show "(case kv of (k, v) \<Rightarrow> Suc (fuel_of v)) \<le> Suc (length (?f kv))"
      by (simp add: e)
  qed
  also have "\<dots> = sum_list (map (\<lambda>x. Suc (length x)) (map ?f kvs))"
    by (simp add: comp_def)
  also have "\<dots> \<le> Suc (length (join_comma (map ?f kvs)))"
    by (rule length_join_comma)
  finally show ?case by simp
qed (simp_all add: quote_json_string_def)

lemma JSON_parse_stringify: "wf_json v \<Longrightarrow> JSON_parse (stringify v) = Some (canon v)"
  using parse_value_stringify [of v "[]" "length (stringify v)"] fuel_le_length [of v]
  by (simp add: JSON_parse_def)

lemma canon_plain: "plain_json v \<Longrightarrow> canon v = v"
proof (induction v)
  case (JNum x)
  then show ?case by (cases x) auto
next
  case (JArr vs)
  then show ?case by (simp add: list_all_iff map_idI)
next
  case (JObj kvs)
  have "map (\<lambda>(k, v). (k, canon v)) kvs = map (\<lambda>kv. kv) kvs"
  proof (rule map_cong [OF refl])
    fix kv assume kv: "kv \<in> set kvs"
    obtain k v where e: "kv = (k, v)" by (cases kv)
    with kv JObj.prems have "plain_json v" by (auto simp: list_all_iff)
    with JObj.IH [of kv v] kv e show "(case kv of (k, v) \<Rightarrow> (k, canon v)) = kv" by simp
  qed
  then show ?case by simp
qed simp_all

lemma JSON_roundtrip: "wf_json v \<Longrightarrow> plain_json v \<Longrightarrow> JSON_parse (stringify v) = Some v"
  by (simp add: JSON_parse_stringify canon_plain)

section \<open>What the handlers return and what they do\<close>

lemma hello_not_json: "JSON_parse ''hello'' = None"
  by (simp add: JSON_parse_def is_ws_def is_digit_def)

lemma error_object_roundtrip:
  "JSON_parse (stringify (JObj [(''error'', JStr m)])) = Some (JObj [(''error'', JStr m)])"
  by (rule JSON_roundtrip) simp_all

lemmas effects_defs = try_catch_def axios_get_call_def logRequest_def toISOString_def
  console_log_def console_error_def Let_def

lemma getSupportedCurrencies_result:
  "fst (getSupportedCurrencies env w) =
     (case axios_get env (API_HOST @ ''/simple/supported_vs_currencies'')
             \<lparr>headers = CG_HEADER env, params = []\<rparr> of
        Inl e \<Rightarrow> Inr (text_result (stringify (JObj [(''error'', JStr ''Failed to fetch supported currencies'')])))
      | Inr r \<Rightarrow> Inr (text_result (stringify (data r))))"
  by (simp add: getSupportedCurrencies_def effects_defs split: sum.splits)

lemma getCoinPrice_result:
  "fst (getCoinPrice env a w) =
     (case axios_get env (API_HOST @ ''/simple/price'')
             \<lparr>headers = CG_HEADER env, params = coin_price_params a\<rparr> of
        Inl e \<Rightarrow> Inr (text_result (stringify (JObj [(''error'', JStr ''Failed to fetch coin prices'')])))
      | Inr r \<Rightarrow> Inr (text_result (stringify (data r))))"
  by (simp add: getCoinPrice_def effects_defs split: sum.splits)

lemma getPublicCompaniesHoldings_result:
  "fst (getPublicCompaniesHoldings env c w) =
     (case axios_get env (API_HOST @ ''/companies/public_treasury/'' @ c)
             \<lparr>headers = CG_HEADER env, params = []\<rparr> of
        Inl e \<Rightarrow> Inr (text_result (stringify (JObj [(''error'', JStr ''Failed to fetch public companies holdings'')])))
      | Inr r \<Rightarrow> Inr (text_result (stringify (data r))))"
  by (simp add: getPublicCompaniesHoldings_def effects_defs split: sum.splits)

lemma hello_result: "fst (hello env w) = Inr (text_result ''hello'')"
  by (simp add: hello_def Let_def)

lemma upstream_requests_append:
  "upstream_requests (xs @ ys) = upstream_requests xs @ upstream_requests ys"
  by (induction xs rule: upstream_requests.induct) simp_all

lemma getCoinPrice_requests:
  "upstream_requests (trace (snd (getCoinPrice env a w))) =
     upstream_requests (trace w)
       @ [(API_HOST @ ''/simple/price'', \<lparr>headers = CG_HEADER env, params = coin_price_params a\<rparr>)]"
  by (simp add: getCoinPrice_def effects_defs upstream_requests_append split: sum.splits)

lemma getSupportedCurrencies_console_error:
  "axios_get env (API_HOST @ ''/simple/supported_vs_currencies'')
             \<lparr>headers = CG_HEADER env, params = []\<rparr> = Inl e \<Longrightarrow>
   ConsoleError ''Error fetching supported currencies:'' e
     \<in> set (trace (snd (getSupportedCurrencies env w)))"
  by (simp add: getSupportedCurrencies_def effects_defs)

lemma getCoinPrice_console_error:
  "axios_get env (API_HOST @ ''/simple/price'')
             \<lparr>headers = CG_HEADER env, params = coin_price_params a\<rparr> = Inl e \<Longrightarrow>
   ConsoleError ''Error fetching coin prices:'' e \<in> set (trace (snd (getCoinPrice env a w)))"
  by (simp add: getCoinPrice_def effects_defs)

lemma getPublicCompaniesHoldings_console_error:
  "axios_get env (API_HOST @ ''/companies/public_treasury/'' @ c)
             \<lparr>headers = CG_HEADER env, params = []\<rparr> = Inl e \<Longrightarrow>
   ConsoleError ''Error fetching public companies holdings:'' e
     \<in> set (trace (snd (getPublicCompaniesHoldings env c w)))"
  by (simp add: getPublicCompaniesHoldings_def effects_defs)

lemma map_of_mcp_server:
  "map_of (mcp_server env) name =
     (if name = ''hello'' then
        Some (''A simple hello tool'', run_tool ''hello'' empty_schema (\<lambda>u. hello env))
      else if name = ''getSupportedCurrencies'' then
        Some (''Get supported currencies from CoinGecko'',
              run_tool ''getSupportedCurrencies'' empty_schema (\<lambda>u. getSupportedCurrencies env))
      else if name = ''getCoinPrice'' then
        Some (''Get coin prices from CoinGecko'',
              run_tool ''getCoinPrice'' getCoinPrice_schema (getCoinPrice env))
      else if name = ''getPublicCompaniesHoldings'' then
        Some (''Get public companies Bitcoin or Ethereum holdings'',
              run_tool ''getPublicCompaniesHoldings'' getPublicCompaniesHoldings_schema
                (getPublicCompaniesHoldings env))
      else None)"
  by (simp add: mcp_server_def server_tool_def Let_def)

lemma call_tool_hello:
  "call_tool env ''hello'' raw w = (Inr (text_result ''hello''), snd (hello env w))"
  using hello_result [of env w]
  by (cases "hello env w") (simp add: call_tool_def map_of_mcp_server run_tool_def empty_schema_def)

lemma call_tool_getSupportedCurrencies:
  "fst (call_tool env ''getSupportedCurrencies'' raw w) =
     (case fst (getSupportedCurrencies env w) of Inl e \<Rightarrow> Inl (HandlerThrew e) | Inr r \<Rightarrow> Inr r)"
  by (cases "getSupportedCurrencies env w")
     (simp add: call_tool_def map_of_mcp_server run_tool_def empty_schema_def split: sum.splits)

lemma call_tool_getCoinPrice:
  "getCoinPrice_schema raw = Inr a \<Longrightarrow>
   call_tool env ''getCoinPrice'' raw w =
     (case getCoinPrice env a w of
        (Inl e, w') \<Rightarrow> (Inl (HandlerThrew e), w') | (Inr r, w') \<Rightarrow> (Inr r, w'))"
  by (simp add: call_tool_def map_of_mcp_server run_tool_def)

lemma call_tool_getPublicCompaniesHoldings:
  "getPublicCompaniesHoldings_schema raw = Inr c \<Longrightarrow>
   call_tool env ''getPublicCompaniesHoldings'' raw w =
     (case getPublicCompaniesHoldings env c w of
        (Inl e, w') \<Rightarrow> (Inl (HandlerThrew e), w') | (Inr r, w') \<Rightarrow> (Inr r, w'))"
  by (simp add: call_tool_def map_of_mcp_server run_tool_def)

lemma getCoinPrice_schema_strings:
  assumes "map_of raw ''ids'' = map_option JStr i" "map_of raw ''names'' = map_option JStr n"
    and "map_of raw ''symbols'' = map_option JStr s"
    and "map_of raw ''vs_currencies'' = map_option JStr v"
  shows "getCoinPrice_schema raw =
           Inr \<lparr>ids = i, names = n, symbols = s,
                vs_currencies = (case v of None \<Rightarrow> ''usd'' | Some c \<Rightarrow> c)\<rparr>"
  using assms
  by (cases i; cases n; cases s; cases v)
     (simp_all add: getCoinPrice_schema_def z_optional_def z_default_def z_string_def)

lemma call_tool_getCoinPrice_requests:
  assumes "getCoinPrice_schema raw = Inr a"
  shows "upstream_requests (trace (snd (call_tool env ''getCoinPrice'' raw w))) =
     upstream_requests (trace w)
       @ [(API_HOST @ ''/simple/price'', \<lparr>headers = CG_HEADER env, params = coin_price_params a\<rparr>)]"
  using getCoinPrice_requests [of env a w]
  by (cases "getCoinPrice env a w") (simp add: call_tool_getCoinPrice [OF assms] split: sum.splits)

lemma failure_text:
  \<open>stringify (JObj [(''error'', JStr ''Failed to fetch coin prices'')])
     = ''{"error":"Failed to fetch coin prices"}''\<close>
  by (simp add: quote_json_string_def quote_char_def)

lemma z_enum_reject:
  assumes "x \<noteq> Some (JStr ''bitcoin'')" "x \<noteq> Some (JStr ''ethereum'')"
  shows "\<exists>code. z_enum [''bitcoin'', ''ethereum''] x = Inl code"
proof (cases x)
  case None
  then show ?thesis by (simp add: z_enum_def)
next
  case (Some v)
  with assms show ?thesis by (cases v) (simp_all add: z_enum_def)
qed

lemma valid_json_stringify: "wf_json v \<Longrightarrow> valid_json (stringify v)"
  by (simp add: valid_json_def JSON_parse_stringify del: stringify.simps)

lemma proxy_text_valid:
  assumes "res = (case x of
        Inl e \<Rightarrow> Inr (text_result (stringify (JObj [(''error'', JStr m)])))
      | Inr r \<Rightarrow> Inr (text_result (stringify (data r))))"
    and "\<And>r. x = Inr r \<Longrightarrow> wf_json (data r)"
  shows "\<exists>t. res = Inr (text_result t) \<and> valid_json t"
proof (cases x)
  case (Inl e)
  have "wf_json (JObj [(''error'', JStr m)])" by simp
  from valid_json_stringify [OF this] Inl assms(1) show ?thesis
    by (intro exI [of _ "stringify (JObj [(''error'', JStr m)])"]) (simp del: stringify.simps)
next
  case (Inr r)
  from valid_json_stringify [OF assms(2) [OF Inr]] Inr assms(1) show ?thesis
    by (intro exI [of _ "stringify (data r)"]) (simp del: stringify.simps)
qed

section \<open>The claims of the specification\<close>

text \<open>
  The model is sequential: one call of one tool, from the arguments object to the
  result, with the console and the upstream requests as a trace. Claims C8 (isolation of
  concurrent requests) and C9 (teardown when the connection closes during a call) are
  about interleavings of asynchronous events and about the \<^verbatim>\<open>close\<close> methods of the SDK's
  server and transport, and have no statement here.
\<close>

text \<open>
  Claim C1. For each of the three proxy tools: if the GET request of the tool fails
  (axios rejects, for a status outside 2xx as for a network failure), the handler
  returns normally (\<open>Inr\<close>, not a thrown value) the envelope with one text block whose
  text is the JSON encoding of \<^verbatim>\<open>{error: m}\<close>, and decoding that text gives back
  \<^verbatim>\<open>{error: m}\<close>, with \<open>m\<close> the fixed message of the tool.
\<close>

theorem upstream_failure_enveloped:
  "(axios_get env (API_HOST @ ''/simple/supported_vs_currencies'')
        \<lparr>headers = CG_HEADER env, params = []\<rparr> = Inl e \<longrightarrow>
      fst (getSupportedCurrencies env w)
        = Inr \<lparr>content = [\<lparr>block_type = ''text'', block_text =
            stringify (JObj [(''error'', JStr ''Failed to fetch supported currencies'')])\<rparr>]\<rparr>
      \<and> JSON_parse (stringify (JObj [(''error'', JStr ''Failed to fetch supported currencies'')]))
        = Some (JObj [(''error'', JStr ''Failed to fetch supported currencies'')]))
   \<and> (axios_get env (API_HOST @ ''/simple/price'')
        \<lparr>headers = CG_HEADER env, params = coin_price_params a\<rparr> = Inl e \<longrightarrow>
      fst (getCoinPrice env a w)
        = Inr \<lparr>content = [\<lparr>block_type = ''text'', block_text =
            stringify (JObj [(''error'', JStr ''Failed to fetch coin prices'')])\<rparr>]\<rparr>
      \<and> JSON_parse (stringify (JObj [(''error'', JStr ''Failed to fetch coin prices'')]))
        = Some (JObj [(''error'', JStr ''Failed to fetch coin prices'')]))
   \<and> (axios_get env (API_HOST @ ''/companies/public_treasury/'' @ c)
        \<lparr>headers = CG_HEADER env, params = []\<rparr> = Inl e \<longrightarrow>
      fst (getPublicCompaniesHoldings env c w)
        = Inr \<lparr>content = [\<lparr>block_type = ''text'', block_text =
            stringify (JObj [(''error'', JStr ''Failed to fetch public companies holdings'')])\<rparr>]\<rparr>
      \<and> JSON_parse (stringify (JObj [(''error'', JStr ''Failed to fetch public companies holdings'')]))
        = Some (JObj [(''error'', JStr ''Failed to fetch public companies holdings'')]))"
  by (simp add: getSupportedCurrencies_result getCoinPrice_result
        getPublicCompaniesHoldings_result error_object_roundtrip text_result_def
      del: stringify.simps)

text \<open>The three tools against an upstream that answers every request with status 429.\<close>

theorem upstream_failure_enveloped_witness:
  "fst (getSupportedCurrencies env_down world0)
        = Inr \<lparr>content = [\<lparr>block_type = ''text'', block_text =
            stringify (JObj [(''error'', JStr ''Failed to fetch supported currencies'')])\<rparr>]\<rparr>
   \<and> fst (getCoinPrice env_down \<lparr>ids = Some ''bitcoin'', names = None, symbols = None,
                                  vs_currencies = ''usd''\<rparr> world0)
        = Inr \<lparr>content = [\<lparr>block_type = ''text'', block_text =
            stringify (JObj [(''error'', JStr ''Failed to fetch coin prices'')])\<rparr>]\<rparr>
   \<and> fst (getPublicCompaniesHoldings env_down ''bitcoin'' world0)
        = Inr \<lparr>content = [\<lparr>block_type = ''text'', block_text =
            stringify (JObj [(''error'', JStr ''Failed to fetch public companies holdings'')])\<rparr>]\<rparr>
   \<and> JSON_parse (stringify (JObj [(''error'', JStr ''Failed to fetch coin prices'')]))
        = Some (JObj [(''error'', JStr ''Failed to fetch coin prices'')])"
  using upstream_failure_enveloped [of env_down
      "ErrorObject ''Request failed with status code 429'' (Some 429)" world0
      "\<lparr>ids = Some ''bitcoin'', names = None, symbols = None, vs_currencies = ''usd''\<rparr>"
      "''bitcoin''"]
  by (simp add: env_down_def del: stringify.simps)

text \<open>
  Claim C2, as amended. For every supported tool name and every invocation with valid
  arguments, the result is an envelope with exactly one content block, of type
  \<^verbatim>\<open>"text"\<close>. For the three proxy tools the text of the block is valid JSON (given that
  the data of a response is a well-formed JavaScript value); for \<^verbatim>\<open>hello\<close> it is the
  bare word \<^verbatim>\<open>hello\<close>.
\<close>

theorem one_text_block_json_for_proxies:
  assumes valid: "valid_call name raw"
    and wf: "\<forall>url config r. axios_get env url config = Inr r \<longrightarrow> wf_json (data r)"
  shows "\<exists>t. fst (call_tool env name raw w)
               = Inr \<lparr>content = [\<lparr>block_type = ''text'', block_text = t\<rparr>]\<rparr>
             \<and> (if name = ''hello'' then t = ''hello'' else valid_json t)"
proof -
  from valid consider (h) "name = ''hello''" | (s) "name = ''getSupportedCurrencies''"
    | (p) a where "name = ''getCoinPrice''" "getCoinPrice_schema raw = Inr a"
    | (c) c where "name = ''getPublicCompaniesHoldings''"
        "getPublicCompaniesHoldings_schema raw = Inr c"
  proof -
    assume r: "name = ''hello'' \<Longrightarrow> thesis" "name = ''getSupportedCurrencies'' \<Longrightarrow> thesis"
      "\<And>a. name = ''getCoinPrice'' \<Longrightarrow> getCoinPrice_schema raw = Inr a \<Longrightarrow> thesis"
      "\<And>c. name = ''getPublicCompaniesHoldings'' \<Longrightarrow>
          getPublicCompaniesHoldings_schema raw = Inr c \<Longrightarrow> thesis"
    from valid have "name = ''hello'' \<or> name = ''getSupportedCurrencies''
      \<or> (name = ''getCoinPrice'' \<and> (\<exists>a. getCoinPrice_schema raw = Inr a))
      \<or> (name = ''getPublicCompaniesHoldings''
          \<and> (\<exists>c. getPublicCompaniesHoldings_schema raw = Inr c))"
      unfolding valid_call_def
      by (cases "getCoinPrice_schema raw"; cases "getPublicCompaniesHoldings_schema raw")
         (simp_all only: sum.disc simp_thms sum.inject ex_simps, blast+)
    with r show thesis by blast
  qed
  then show ?thesis
  proof cases
    case h
    then show ?thesis by (simp add: call_tool_hello text_result_def)
  next
    case s
    from proxy_text_valid [OF getSupportedCurrencies_result [of env w]] wf
    obtain t where "fst (getSupportedCurrencies env w) = Inr (text_result t)" "valid_json t"
      by blast
    then show ?thesis
      by (simp add: s call_tool_getSupportedCurrencies text_result_def)
  next
    case p
    from proxy_text_valid [OF getCoinPrice_result [of env a w]] wf
    obtain t where t: "fst (getCoinPrice env a w) = Inr (text_result t)" "valid_json t"
      by blast
    then show ?thesis
      by (cases "getCoinPrice env a w")
         (simp add: p call_tool_getCoinPrice [OF p(2)] text_result_def)
  next
    case c
    from proxy_text_valid [OF getPublicCompaniesHoldings_result [of env c w]] wf
    obtain t where t: "fst (getPublicCompaniesHoldings env c w) = Inr (text_result t)"
        "valid_json t"
      by blast
    then show ?thesis
      by (cases "getPublicCompaniesHoldings env c w")
         (simp add: c call_tool_getPublicCompaniesHoldings [OF c(2)] text_result_def)
  qed
qed

text \<open>Claim C2 as stated fails at \<^verbatim>\<open>hello\<close>: the call is valid, and the text of its
  block, the five letters \<^verbatim>\<open>hello\<close> without quotes, is not a JSON text.\<close>

theorem hello_text_not_json:
  "valid_call ''hello'' []
   \<and> fst (call_tool env_up ''hello'' [] world0)
       = Inr \<lparr>content = [\<lparr>block_type = ''text'', block_text = ''hello''\<rparr>]\<rparr>
   \<and> \<not> valid_json ''hello''"
  by (simp add: valid_call_def call_tool_hello text_result_def valid_json_def hello_not_json)

text \<open>A call of \<^verbatim>\<open>getCoinPrice\<close> for one coin against an upstream that answers.\<close>

theorem one_text_block_json_for_proxies_witness:
  "valid_call ''getCoinPrice'' [(''ids'', JStr ''bitcoin'')]
   \<and> wf_json (JObj [(''bitcoin'', JObj [(''usd'', JNum (Finite False [6, 7, 1, 8, 7, 3, 3] 5))])])
   \<and> (\<exists>t. fst (call_tool env_up ''getCoinPrice'' [(''ids'', JStr ''bitcoin'')] world0)
               = Inr \<lparr>content = [\<lparr>block_type = ''text'', block_text = t\<rparr>]\<rparr>
             \<and> valid_json t)"
proof -
  have v: "valid_call ''getCoinPrice'' [(''ids'', JStr ''bitcoin'')]"
    by (simp add: valid_call_def getCoinPrice_schema_def z_optional_def z_default_def z_string_def)
  have d: "wf_json (JObj [(''bitcoin'', JObj [(''usd'', JNum (Finite False [6, 7, 1, 8, 7, 3, 3] 5))])])"
    by simp
  then have w: "\<forall>url config r. axios_get env_up url config = Inr r \<longrightarrow> wf_json (data r)"
    by (auto simp: env_up_def)
  from one_text_block_json_for_proxies [OF v w, of world0] v d show ?thesis by simp
qed

text \<open>
  Claim C3. If the \<^verbatim>\<open>coin_id\<close> of the arguments is anything but the string
  \<^verbatim>\<open>"bitcoin"\<close> or the string \<^verbatim>\<open>"ethereum"\<close> (another string, a value of another type, or
  absent), a call of \<^verbatim>\<open>getPublicCompaniesHoldings\<close> ends with a validation error that
  names the parameter, and the world is as before the call: the handler has not logged
  its \<^verbatim>\<open>TOOL_CALL\<close> line and no GET request has gone out.
\<close>

theorem holdings_rejects_other_coin_ids:
  assumes "map_of raw ''coin_id'' \<noteq> Some (JStr ''bitcoin'')"
    and "map_of raw ''coin_id'' \<noteq> Some (JStr ''ethereum'')"
  shows "\<exists>code. call_tool env ''getPublicCompaniesHoldings'' raw w
           = (Inl (InvalidParams ''getPublicCompaniesHoldings'' [(''coin_id'', code)]), w)"
proof -
  from z_enum_reject [OF assms] obtain code
    where "z_enum [''bitcoin'', ''ethereum''] (map_of raw ''coin_id'') = Inl code" by blast
  then show ?thesis
    by (simp add: call_tool_def map_of_mcp_server run_tool_def
          getPublicCompaniesHoldings_schema_def issues_at_def)
qed

text \<open>A call with \<^verbatim>\<open>coin_id: "dogecoin"\<close>.\<close>

theorem holdings_rejects_other_coin_ids_witness:
  "call_tool env_up ''getPublicCompaniesHoldings'' [(''coin_id'', JStr ''dogecoin'')] world0
     = (Inl (InvalidParams ''getPublicCompaniesHoldings'' [(''coin_id'', invalid_enum_value)]), world0)
   \<and> upstream_requests (trace (snd (call_tool env_up ''getPublicCompaniesHoldings''
        [(''coin_id'', JStr ''dogecoin'')] world0))) = []"
proof -
  from holdings_rejects_other_coin_ids [of "[(''coin_id'', JStr ''dogecoin'')]" env_up world0]
  obtain code where c: "call_tool env_up ''getPublicCompaniesHoldings''
      [(''coin_id'', JStr ''dogecoin'')] world0
     = (Inl (InvalidParams ''getPublicCompaniesHoldings'' [(''coin_id'', code)]), world0)"
    by auto
  moreover have "code = invalid_enum_value"
    using c by (simp add: call_tool_def map_of_mcp_server run_tool_def
          getPublicCompaniesHoldings_schema_def issues_at_def z_enum_def)
  ultimately show ?thesis by (simp add: world0_def)
qed

text \<open>
  Claim C4. When \<^verbatim>\<open>getCoinPrice\<close> is called with none of \<^verbatim>\<open>ids\<close>, \<^verbatim>\<open>names\<close>, \<^verbatim>\<open>symbols\<close>
  and \<^verbatim>\<open>vs_currencies\<close> in its arguments, exactly one GET request goes out, to
  \<^verbatim>\<open>{base}/simple/price\<close>, and its query has the single parameter
  \<^verbatim>\<open>vs_currencies=usd\<close>: the three others are not in it at all.
\<close>

theorem getCoinPrice_default_query:
  assumes "map_of raw ''ids'' = None" "map_of raw ''names'' = None"
    and "map_of raw ''symbols'' = None" "map_of raw ''vs_currencies'' = None"
  shows "\<exists>config.
           upstream_requests (trace (snd (call_tool env ''getCoinPrice'' raw w)))
             = upstream_requests (trace w) @ [(API_HOST @ ''/simple/price'', config)]
           \<and> query_params (params config) = [(''vs_currencies'', ''usd'')]"
proof -
  have "getCoinPrice_schema raw
      = Inr \<lparr>ids = None, names = None, symbols = None, vs_currencies = ''usd''\<rparr>"
    using getCoinPrice_schema_strings [of raw None None None None] assms by simp
  from call_tool_getCoinPrice_requests [OF this, of env w] show ?thesis
    by (simp add: coin_price_params_def query_params_def List.map_filter_simps)
qed

text \<open>A call with the empty arguments object.\<close>

theorem getCoinPrice_default_query_witness:
  "\<exists>config.
      upstream_requests (trace (snd (call_tool env_up ''getCoinPrice'' [] world0)))
        = [(''https://api.coingecko.com/api/v3/simple/price'', config)]
      \<and> query_params (params config) = [(''vs_currencies'', ''usd'')]"
  using getCoinPrice_default_query [of "[]" env_up world0]
  by (simp add: world0_def API_HOST_def)

text \<open>
  Claim C5, as amended. Round trip: for every response payload that is a well-formed
  JavaScript value in which every number is finite and none is negative zero, the
  success envelope of each proxy tool has a single text block whose text decodes to
  exactly the payload.
\<close>

theorem success_text_decodes_to_payload:
  assumes "wf_json (data r)" and "plain_json (data r)"
  shows "(axios_get env (API_HOST @ ''/simple/supported_vs_currencies'')
            \<lparr>headers = CG_HEADER env, params = []\<rparr> = Inr r \<longrightarrow>
          (\<exists>t. fst (getSupportedCurrencies env w)
                  = Inr \<lparr>content = [\<lparr>block_type = ''text'', block_text = t\<rparr>]\<rparr>
                \<and> JSON_parse t = Some (data r)))
       \<and> (axios_get env (API_HOST @ ''/simple/price'')
            \<lparr>headers = CG_HEADER env, params = coin_price_params a\<rparr> = Inr r \<longrightarrow>
          (\<exists>t. fst (getCoinPrice env a w)
                  = Inr \<lparr>content = [\<lparr>block_type = ''text'', block_text = t\<rparr>]\<rparr>
                \<and> JSON_parse t = Some (data r)))
       \<and> (axios_get env (API_HOST @ ''/companies/public_treasury/'' @ c)
            \<lparr>headers = CG_HEADER env, params = []\<rparr> = Inr r \<longrightarrow>
          (\<exists>t. fst (getPublicCompaniesHoldings env c w)
                  = Inr \<lparr>content = [\<lparr>block_type = ''text'', block_text = t\<rparr>]\<rparr>
                \<and> JSON_parse t = Some (data r)))"
  using JSON_roundtrip [OF assms]
  by (simp add: getSupportedCurrencies_result getCoinPrice_result
        getPublicCompaniesHoldings_result text_result_def del: stringify.simps)

text \<open>Claim C5 as stated fails at the payload \<^verbatim>\<open>Infinity\<close> (what axios holds after a body
  such as \<^verbatim>\<open>1e999\<close>): the text of the block is \<^verbatim>\<open>null\<close>, which decodes to \<^verbatim>\<open>null\<close>.\<close>

theorem infinity_payload_decodes_to_null:
  "axios_get env_infinity (API_HOST @ ''/simple/supported_vs_currencies'')
      \<lparr>headers = CG_HEADER env_infinity, params = []\<rparr>
     = Inr \<lparr>status = 200, statusText = ''OK'', data = JNum PosInf\<rparr>
   \<and> fst (getSupportedCurrencies env_infinity world0)
     = Inr \<lparr>content = [\<lparr>block_type = ''text'', block_text = ''null''\<rparr>]\<rparr>
   \<and> JSON_parse ''null'' = Some JNull
   \<and> JSON_parse ''null'' \<noteq> Some (JNum PosInf)"
proof -
  have "JSON_parse ''null'' = Some JNull"
    by (simp add: JSON_parse_def is_ws_def)
  then show ?thesis
    by (simp add: getSupportedCurrencies_result text_result_def env_infinity_def)
qed

text \<open>A price of 67187.33 for one coin.\<close>

theorem success_text_decodes_to_payload_witness:
  "\<exists>t. fst (getCoinPrice env_up \<lparr>ids = Some ''bitcoin'', names = None, symbols = None,
                                  vs_currencies = ''usd''\<rparr> world0)
          = Inr \<lparr>content = [\<lparr>block_type = ''text'', block_text = t\<rparr>]\<rparr>
       \<and> JSON_parse t
          = Some (JObj [(''bitcoin'', JObj [(''usd'', JNum (Finite False [6, 7, 1, 8, 7, 3, 3] 5))])])"
proof -
  let ?r = "\<lparr>status = 200, statusText = ''OK'',
    data = JObj [(''bitcoin'', JObj [(''usd'', JNum (Finite False [6, 7, 1, 8, 7, 3, 3] 5))])]\<rparr>"
  have wf: "wf_json (data ?r)" and pl: "plain_json (data ?r)" by simp_all
  from success_text_decodes_to_payload [OF wf pl, of env_up world0
      "\<lparr>ids = Some ''bitcoin'', names = None, symbols = None, vs_currencies = ''usd''\<rparr>"
      "''bitcoin''"]
  show ?thesis by (simp add: env_up_def)
qed

text \<open>
  Claim C6. Two runs of the same tool on the same arguments, in any two surroundings and
  console states, whose GET requests fail with any two errors \<open>e1\<close> and \<open>e2\<close>: the two
  results are equal, both being the envelope of \<^verbatim>\<open>{error: m}\<close> for the fixed message \<open>m\<close>
  of the tool, which does not mention the error. The error itself goes to the console,
  through \<^verbatim>\<open>console.error\<close>.
\<close>

theorem failure_envelope_independent_of_error:
  "(axios_get env1 (API_HOST @ ''/simple/supported_vs_currencies'')
        \<lparr>headers = CG_HEADER env1, params = []\<rparr> = Inl e1
    \<and> axios_get env2 (API_HOST @ ''/simple/supported_vs_currencies'')
        \<lparr>headers = CG_HEADER env2, params = []\<rparr> = Inl e2 \<longrightarrow>
      fst (getSupportedCurrencies env1 w1) = fst (getSupportedCurrencies env2 w2)
      \<and> fst (getSupportedCurrencies env1 w1)
          = Inr (text_result (stringify (JObj [(''error'', JStr ''Failed to fetch supported currencies'')])))
      \<and> ConsoleError ''Error fetching supported currencies:'' e1
          \<in> set (trace (snd (getSupportedCurrencies env1 w1))))
   \<and> (axios_get env1 (API_HOST @ ''/simple/price'')
        \<lparr>headers = CG_HEADER env1, params = coin_price_params a\<rparr> = Inl e1
    \<and> axios_get env2 (API_HOST @ ''/simple/price'')
        \<lparr>headers = CG_HEADER env2, params = coin_price_params a\<rparr> = Inl e2 \<longrightarrow>
      fst (getCoinPrice env1 a w1) = fst (getCoinPrice env2 a w2)
      \<and> fst (getCoinPrice env1 a w1)
          = Inr (text_result (stringify (JObj [(''error'', JStr ''Failed to fetch coin prices'')])))
      \<and> ConsoleError ''Error fetching coin prices:'' e1
          \<in> set (trace (snd (getCoinPrice env1 a w1))))
   \<and> (axios_get env1 (API_HOST @ ''/companies/public_treasury/'' @ c)
        \<lparr>headers = CG_HEADER env1, params = []\<rparr> = Inl e1
    \<and> axios_get env2 (API_HOST @ ''/companies/public_treasury/'' @ c)
        \<lparr>headers = CG_HEADER env2, params = []\<rparr> = Inl e2 \<longrightarrow>
      fst (getPublicCompaniesHoldings env1 c w1) = fst (getPublicCompaniesHoldings env2 c w2)
      \<and> fst (getPublicCompaniesHoldings env1 c w1)
          = Inr (text_result (stringify (JObj [(''error'', JStr ''Failed to fetch public companies holdings'')])))
      \<and> ConsoleError ''Error fetching public companies holdings:'' e1
          \<in> set (trace (snd (getPublicCompaniesHoldings env1 c w1))))"
  by (simp add: getSupportedCurrencies_result getCoinPrice_result
        getPublicCompaniesHoldings_result getSupportedCurrencies_console_error
        getCoinPrice_console_error getPublicCompaniesHoldings_console_error
      del: stringify.simps)

text \<open>A status 429 in one run and a timeout in the other.\<close>

theorem failure_envelope_independent_of_error_witness:
  "ErrorObject ''Request failed with status code 429'' (Some 429)
     \<noteq> ErrorObject ''timeout of 1000ms exceeded'' None
   \<and> fst (getCoinPrice env_down \<lparr>ids = Some ''bitcoin'', names = None, symbols = None,
                                  vs_currencies = ''usd''\<rparr> world0)
     = fst (getCoinPrice env_timeout \<lparr>ids = Some ''bitcoin'', names = None, symbols = None,
                                  vs_currencies = ''usd''\<rparr> world0)
   \<and> fst (getSupportedCurrencies env_down world0) = fst (getSupportedCurrencies env_timeout world0)
   \<and> fst (getPublicCompaniesHoldings env_down ''ethereum'' world0)
     = fst (getPublicCompaniesHoldings env_timeout ''ethereum'' world0)
   \<and> ConsoleError ''Error fetching coin prices:''
        (ErrorObject ''Request failed with status code 429'' (Some 429))
       \<in> set (trace (snd (getCoinPrice env_down \<lparr>ids = Some ''bitcoin'', names = None,
                               symbols = None, vs_currencies = ''usd''\<rparr> world0)))"
  using failure_envelope_independent_of_error [of env_down
      "ErrorObject ''Request failed with status code 429'' (Some 429)" env_timeout
      "ErrorObject ''timeout of 1000ms exceeded'' None" world0 world0
      "\<lparr>ids = Some ''bitcoin'', names = None, symbols = None, vs_currencies = ''usd''\<rparr>"
      "''ethereum''"]
  by (simp add: env_down_def env_timeout_def del: stringify.simps)

text \<open>
  Claim C7. The \<^verbatim>\<open>hello\<close> tool always returns the envelope whose single content block is
  \<^verbatim>\<open>{type: "text", text: "hello"}\<close>: the handler does, whatever the surroundings and the
  state of the console, and so does a call of the tool through the server, whatever
  arguments object comes with it (the schema of the tool is empty).
\<close>

theorem hello_returns_hello:
  "fst (hello env w) = Inr \<lparr>content = [\<lparr>block_type = ''text'', block_text = ''hello''\<rparr>]\<rparr>
   \<and> fst (call_tool env ''hello'' raw w)
       = Inr \<lparr>content = [\<lparr>block_type = ''text'', block_text = ''hello''\<rparr>]\<rparr>"
  by (simp add: hello_result call_tool_hello text_result_def)

text \<open>
  Claim C10. For \<^verbatim>\<open>getCoinPrice\<close>, whenever each of the four arguments is absent or is
  a string, any string, the empty one included, validation succeeds with exactly these
  strings (and \<^verbatim>\<open>"usd"\<close> for an absent \<^verbatim>\<open>vs_currencies\<close>; nothing checks the value
  against the supported currencies), and the query of the request that goes out has a
  parameter for every argument that was given, an empty string as an empty value; only
  the absent ones are left out.
\<close>

theorem getCoinPrice_forwards_any_string:
  assumes "map_of raw ''ids'' = map_option JStr i" "map_of raw ''names'' = map_option JStr n"
    and "map_of raw ''symbols'' = map_option JStr s"
    and "map_of raw ''vs_currencies'' = map_option JStr v"
  shows "getCoinPrice_schema raw
           = Inr \<lparr>ids = i, names = n, symbols = s,
                  vs_currencies = (case v of None \<Rightarrow> ''usd'' | Some c \<Rightarrow> c)\<rparr>
         \<and> (\<exists>config.
              upstream_requests (trace (snd (call_tool env ''getCoinPrice'' raw w)))
                = upstream_requests (trace w) @ [(API_HOST @ ''/simple/price'', config)]
              \<and> query_params (params config)
                = (case i of None \<Rightarrow> [] | Some x \<Rightarrow> [(''ids'', x)])
                  @ (case n of None \<Rightarrow> [] | Some x \<Rightarrow> [(''names'', x)])
                  @ (case s of None \<Rightarrow> [] | Some x \<Rightarrow> [(''symbols'', x)])
                  @ [(''vs_currencies'', case v of None \<Rightarrow> ''usd'' | Some c \<Rightarrow> c)])"
proof -
  note sch = getCoinPrice_schema_strings [OF assms]
  from call_tool_getCoinPrice_requests [OF sch, of env w] sch show ?thesis
    by (cases i; cases n; cases s)
       (simp_all add: coin_price_params_def query_params_def List.map_filter_simps)
qed

text \<open>A call with \<^verbatim>\<open>ids\<close> and \<^verbatim>\<open>vs_currencies\<close> both the empty string.\<close>

theorem getCoinPrice_forwards_any_string_witness:
  "getCoinPrice_schema [(''ids'', JStr []), (''vs_currencies'', JStr [])]
     = Inr \<lparr>ids = Some [], names = None, symbols = None, vs_currencies = []\<rparr>
   \<and> (\<exists>config.
        upstream_requests (trace (snd (call_tool env_up ''getCoinPrice''
            [(''ids'', JStr []), (''vs_currencies'', JStr [])] world0)))
          = [(''https://api.coingecko.com/api/v3/simple/price'', config)]
        \<and> query_params (params config) = [(''ids'', []), (''vs_currencies'', [])])"
  using getCoinPrice_forwards_any_string
    [of "[(''ids'', JStr []), (''vs_currencies'', JStr [])]" "Some []" None None "Some []"
        env_up world0]
  by (simp add: world0_def API_HOST_def)

end
